theory Spec2Isabelle
  imports Main "HOL-Library.Sublist"
begin

section \<open>Python values\<close>

text \<open>
  A Python \<open>str\<close> is a sequence of Unicode code points, and \<open>len\<close>, slicing, \<open>in\<close> and
  \<open>lower\<close> work on code points. A string is therefore a list of code points; the literals
  of the sources are written out code point by code point.
\<close>

type_synonym pystr = "nat list"

definition ascii :: "string \<Rightarrow> pystr" where
  "ascii s = map of_char s"

text \<open>
  Exceptions are values: a function that can raise returns \<open>py_error + 'a\<close>, with \<open>Inl\<close>
  for the exception. Only instances of \<open>Exception\<close> are represented, which is what the
  \<open>except Exception\<close> clauses of the sources catch. \<open>str(e)\<close> is the message an exception
  carries; for the exceptions the interpreter raises itself the text is CPython's.
\<close>

datatype exc_class =
  UnboundLocalError | TypeError | AttributeError | ValueError | JSONDecodeError | IndexError |
  OverflowError | OtherException

datatype py_error = Raised exc_class pystr

fun exc_class_of :: "py_error \<Rightarrow> exc_class" where
  "exc_class_of (Raised c m) = c"

fun exc_str :: "py_error \<Rightarrow> pystr" where
  "exc_str (Raised c m) = m"

text \<open>
  A finite \<open>float\<close> is a dyadic rational: \<open>Fin m e\<close> stands for \<open>m * 2 ^ e\<close>. Comparisons
  are exact on these, as they are in Python (also between \<open>int\<close> and \<open>float\<close>). The sign of
  zero is not represented.
\<close>

datatype pyfloat = Fin int int | PosInf | NegInf | NaN

datatype pyval =
    PNone
  | PBool bool
  | PInt int
  | PFloat pyfloat
  | PStr pystr
  | PList "pyval list"
  | PDict "(pystr \<times> pyval) list"

text \<open>A dict is the list of its items, in insertion order and with distinct keys.\<close>

type_synonym pydict = "(pystr \<times> pyval) list"

definition dict_get :: "pydict \<Rightarrow> pystr \<Rightarrow> pyval \<Rightarrow> pyval" where
  \<comment> \<open>\<open>d.get(k, default)\<close>\<close>
  "dict_get d k dflt = (case map_of d k of None \<Rightarrow> dflt | Some v \<Rightarrow> v)"

fun truthy :: "pyval \<Rightarrow> bool" where
  "truthy PNone = False"
| "truthy (PBool b) = b"
| "truthy (PInt i) = (i \<noteq> 0)"
| "truthy (PFloat (Fin m e)) = (m \<noteq> 0)"
| "truthy (PFloat f) = True"
| "truthy (PStr s) = (s \<noteq> [])"
| "truthy (PList xs) = (xs \<noteq> [])"
| "truthy (PDict kvs) = (kvs \<noteq> [])"

section \<open>Built-in operations of Python\<close>

text \<open>
  The library functions whose full definition lies outside the repository are parameters:
  \<open>str.lower\<close> (Unicode case mapping), \<open>json.loads\<close>, \<open>str()\<close> of floats and
  containers, whether \<open>datetime.strptime(s, '%Y-%m-%d')\<close> accepts \<open>s\<close>, \<open>float()\<close> of a
  string, and \<open>sorted(..., reverse=True)\<close> on keys that are not all of one shape, where
  the result, or the \<open>TypeError\<close>, depends on the comparisons the sort happens to make.
  A sort key is the tuple of its integer components with its last component.
\<close>

type_synonym sort_key = "int list \<times> pyval"

record builtins =
  str_lower :: "pystr \<Rightarrow> pystr"
  json_loads :: "pystr \<Rightarrow> py_error + pyval"
  obj_str :: "pyval \<Rightarrow> pystr"
  strptime_ymd :: "pystr \<Rightarrow> bool"
  float_of_str :: "pystr \<Rightarrow> py_error + pyfloat"
  sorted_mixed :: "(sort_key \<times> (pystr \<times> pyval) list) list \<Rightarrow> py_error + (pystr \<times> pyval) list list"

fun str_of_nat :: "nat \<Rightarrow> pystr" where
  "str_of_nat n = (if n < 10 then [48 + n] else str_of_nat (n div 10) @ [48 + n mod 10])"

declare str_of_nat.simps [simp del]

definition str_of_int :: "int \<Rightarrow> pystr" where
  "str_of_int i = (if i < 0 then 45 # str_of_nat (nat (- i)) else str_of_nat (nat i))"

fun type_name :: "pyval \<Rightarrow> pystr" where
  "type_name PNone = ascii ''NoneType''"
| "type_name (PBool b) = ascii ''bool''"
| "type_name (PInt i) = ascii ''int''"
| "type_name (PFloat f) = ascii ''float''"
| "type_name (PStr s) = ascii ''str''"
| "type_name (PList xs) = ascii ''list''"
| "type_name (PDict kvs) = ascii ''dict''"

definition apostrophe :: pystr where
  "apostrophe = [0x27]"

fun py_str :: "builtins \<Rightarrow> pyval \<Rightarrow> pystr" where
  \<comment> \<open>\<open>str(v)\<close>, which is what an f-string field inserts\<close>
  "py_str B (PStr s) = s"
| "py_str B PNone = ascii ''None''"
| "py_str B (PBool b) = (if b then ascii ''True'' else ascii ''False'')"
| "py_str B (PInt i) = str_of_int i"
| "py_str B v = obj_str B v"

fun py_lower :: "builtins \<Rightarrow> pyval \<Rightarrow> py_error + pystr" where
  \<comment> \<open>\<open>v.lower()\<close>: only a \<open>str\<close> has the method\<close>
  "py_lower B (PStr s) = Inr (str_lower B s)"
| "py_lower B v = Inl (Raised AttributeError
      (apostrophe @ type_name v @ apostrophe @ ascii '' object has no attribute '' @
       apostrophe @ ascii ''lower'' @ apostrophe))"

fun py_in :: "pystr \<Rightarrow> pystr \<Rightarrow> bool" where
  \<comment> \<open>\<open>needle in hay\<close> on two strings\<close>
  "py_in needle [] = (needle = [])"
| "py_in needle (c # cs) = (prefix needle (c # cs) \<or> py_in needle cs)"

definition is_space :: "nat \<Rightarrow> bool" where
  \<comment> \<open>the code points for which \<open>str.isspace\<close> holds\<close>
  "is_space c = (c \<in> set [0x9, 0xA, 0xB, 0xC, 0xD, 0x1C, 0x1D, 0x1E, 0x1F, 0x20, 0x85, 0xA0,
       0x1680, 0x2000, 0x2001, 0x2002, 0x2003, 0x2004, 0x2005, 0x2006, 0x2007, 0x2008, 0x2009,
       0x200A, 0x2028, 0x2029, 0x202F, 0x205F, 0x3000])"

definition py_strip :: "pystr \<Rightarrow> pystr" where
  "py_strip s = rev (dropWhile is_space (rev (dropWhile is_space s)))"

fun py_find :: "nat \<Rightarrow> pystr \<Rightarrow> int" where
  \<comment> \<open>\<open>s.find(c)\<close> for a single character: the first index, or -1\<close>
  "py_find c [] = - 1"
| "py_find c (x # xs) =
     (if x = c then 0 else (let r = py_find c xs in if r < 0 then - 1 else r + 1))"

definition py_rfind :: "nat \<Rightarrow> pystr \<Rightarrow> int" where
  \<comment> \<open>\<open>s.rfind(c)\<close>: the last index, or -1\<close>
  "py_rfind c s = (let r = py_find c (rev s) in if r < 0 then - 1 else int (length s) - 1 - r)"

definition py_slice :: "pystr \<Rightarrow> int \<Rightarrow> int \<Rightarrow> pystr" where
  \<comment> \<open>\<open>s[a:b]\<close> for \<open>0 \<le> a\<close> and \<open>0 \<le> b\<close>\<close>
  "py_slice s a b = take (nat b - nat a) (drop (nat a) s)"

fun py_join :: "pystr \<Rightarrow> pystr list \<Rightarrow> pystr" where
  \<comment> \<open>\<open>sep.join(parts)\<close>\<close>
  "py_join sep [] = []"
| "py_join sep [p] = p"
| "py_join sep (p # q # ps) = p @ sep @ py_join sep (q # ps)"

subsection \<open>Numbers\<close>

definition dy_less :: "int \<Rightarrow> int \<Rightarrow> int \<Rightarrow> int \<Rightarrow> bool" where
  \<comment> \<open>\<open>m1 * 2 ^ e1 < m2 * 2 ^ e2\<close>, on a common exponent\<close>
  "dy_less m1 e1 m2 e2 =
     (let e = min e1 e2 in m1 * 2 ^ nat (e1 - e) < m2 * 2 ^ nat (e2 - e))"

fun float_less :: "pyfloat \<Rightarrow> pyfloat \<Rightarrow> bool" where
  "float_less NaN y = False"
| "float_less x NaN = False"
| "float_less (Fin m1 e1) (Fin m2 e2) = dy_less m1 e1 m2 e2"
| "float_less x NegInf = False"
| "float_less NegInf y = True"
| "float_less PosInf y = False"
| "float_less (Fin m e) PosInf = True"

fun float_ge :: "pyfloat \<Rightarrow> pyfloat \<Rightarrow> bool" where
  "float_ge NaN y = False"
| "float_ge x NaN = False"
| "float_ge x y = (\<not> float_less x y)"

fun as_number :: "pyval \<Rightarrow> pyfloat option" where
  \<comment> \<open>the value of a \<open>bool\<close>, \<open>int\<close> or \<open>float\<close> in a numeric comparison\<close>
  "as_number (PBool b) = Some (Fin (if b then 1 else 0) 0)"
| "as_number (PInt i) = Some (Fin i 0)"
| "as_number (PFloat f) = Some f"
| "as_number v = None"

definition not_supported :: "string \<Rightarrow> pyval \<Rightarrow> pystr \<Rightarrow> py_error" where
  "not_supported opr v right_type = Raised TypeError
     (apostrophe @ ascii opr @ apostrophe @ ascii '' not supported between instances of '' @
      apostrophe @ type_name v @ apostrophe @ ascii '' and '' @
      apostrophe @ right_type @ apostrophe)"

definition py_lt_num :: "pyval \<Rightarrow> pyfloat \<Rightarrow> pystr \<Rightarrow> py_error + bool" where
  \<comment> \<open>\<open>v < x\<close> for a number \<open>x\<close> (an \<open>int\<close> or a \<open>float\<close>, as \<open>right_type\<close> says)\<close>
  "py_lt_num v x right_type =
     (case as_number v of
        None \<Rightarrow> Inl (not_supported ''<'' v right_type)
      | Some f \<Rightarrow> Inr (float_less f x))"

definition py_ge_num :: "pyval \<Rightarrow> pyfloat \<Rightarrow> pystr \<Rightarrow> py_error + bool" where
  \<comment> \<open>\<open>v >= x\<close> for a number \<open>x\<close>\<close>
  "py_ge_num v x right_type =
     (case as_number v of
        None \<Rightarrow> Inl (not_supported ''>='' v right_type)
      | Some f \<Rightarrow> Inr (float_ge f x))"

text \<open>The float literals of the sources, as the binary64 values they denote.\<close>

definition float_0_5 :: pyfloat where "float_0_5 = Fin 1 (- 1)"
definition float_0_6 :: pyfloat where "float_0_6 = Fin 5404319552844595 (- 53)"
definition float_0_7 :: pyfloat where "float_0_7 = Fin 3152519739159347 (- 52)"
definition float_0_8 :: pyfloat where "float_0_8 = Fin 3602879701896397 (- 52)"

fun py_getattr_get :: "pyval \<Rightarrow> pystr \<Rightarrow> pyval \<Rightarrow> py_error + pyval" where
  \<comment> \<open>\<open>v.get(k, default)\<close>: only a \<open>dict\<close> has the method\<close>
  "py_getattr_get (PDict d) k dflt = Inr (dict_get d k dflt)"
| "py_getattr_get v k dflt = Inl (Raised AttributeError
      (apostrophe @ type_name v @ apostrophe @ ascii '' object has no attribute '' @
       apostrophe @ ascii ''get'' @ apostrophe))"


subsection \<open>Ordering and sorting\<close>

fun str_less :: "pystr \<Rightarrow> pystr \<Rightarrow> bool" where
  \<comment> \<open>\<open>a < b\<close> on two strings: lexicographic on code points\<close>
  "str_less [] [] = False"
| "str_less [] (y # ys) = True"
| "str_less (x # xs) [] = False"
| "str_less (x # xs) (y # ys) = (x < y \<or> (x = y \<and> str_less xs ys))"

fun ints_less :: "int list \<Rightarrow> int list \<Rightarrow> bool" where
  \<comment> \<open>\<open>a < b\<close> on two tuples of integers\<close>
  "ints_less [] [] = False"
| "ints_less [] (y # ys) = True"
| "ints_less (x # xs) [] = False"
| "ints_less (x # xs) (y # ys) = (x < y \<or> (x = y \<and> ints_less xs ys))"

definition key_less :: "int list \<times> pystr \<Rightarrow> int list \<times> pystr \<Rightarrow> bool" where
  \<comment> \<open>\<open>a < b\<close> on two key tuples of equal length whose last component is a string\<close>
  "key_less a b = (ints_less (fst a) (fst b) \<or> (fst a = fst b \<and> str_less (snd a) (snd b)))"

fun insert_desc ::
  "(int list \<times> pystr) \<times> 'a \<Rightarrow> ((int list \<times> pystr) \<times> 'a) list \<Rightarrow> ((int list \<times> pystr) \<times> 'a) list"
  where
  "insert_desc x [] = [x]"
| "insert_desc x (y # ys) =
     (if key_less (fst x) (fst y) then y # insert_desc x ys else x # y # ys)"

definition sort_desc ::
  "((int list \<times> pystr) \<times> 'a) list \<Rightarrow> ((int list \<times> pystr) \<times> 'a) list" where
  \<comment> \<open>the stable sort by descending key: elements with equal keys keep their order, as
      \<open>sorted\<close> with \<open>reverse=True\<close> keeps it\<close>
  "sort_desc xs = foldr insert_desc xs []"

fun is_str :: "pyval \<Rightarrow> bool" where
  "is_str (PStr s) = True"
| "is_str v = False"

fun str_val :: "pyval \<Rightarrow> pystr" where
  "str_val (PStr s) = s"
| "str_val v = []"

definition py_sorted_reverse :: "builtins \<Rightarrow> (sort_key \<times> pydict) list \<Rightarrow> py_error + pydict list" where
  \<comment> \<open>\<open>sorted(xs, key=..., reverse=True)\<close>, on the elements paired with their keys\<close>
  "py_sorted_reverse B keyed =
     (if list_all (\<lambda>(k, x). is_str (snd k)) keyed
      then Inr (map snd (sort_desc (map (\<lambda>(k, x). ((fst k, str_val (snd k)), x)) keyed)))
      else sorted_mixed B keyed)"

fun collect :: "('a \<Rightarrow> py_error + 'b) \<Rightarrow> 'a list \<Rightarrow> py_error + 'b list" where
  \<comment> \<open>a function applied to each element in turn, stopping at the first exception\<close>
  "collect f [] = Inr []"
| "collect f (x # xs) =
     (case f x of
        Inl e \<Rightarrow> Inl e
      | Inr y \<Rightarrow> (case collect f xs of Inl e \<Rightarrow> Inl e | Inr ys \<Rightarrow> Inr (y # ys)))"

definition unhashable :: "pyval \<Rightarrow> py_error" where
  "unhashable v = Raised TypeError
     (ascii ''unhashable type: '' @ apostrophe @ type_name v @ apostrophe)"

fun table_get :: "(pystr \<times> 'a) list \<Rightarrow> pyval \<Rightarrow> 'a \<Rightarrow> py_error + 'a" where
  \<comment> \<open>\<open>table.get(v, default)\<close> on a dict literal with string keys: a list or a dict as
      key cannot be hashed\<close>
  "table_get tbl (PStr s) dflt = Inr (case map_of tbl s of Some r \<Rightarrow> r | None \<Rightarrow> dflt)"
| "table_get tbl (PList xs) dflt = Inl (unhashable (PList xs))"
| "table_get tbl (PDict d) dflt = Inl (unhashable (PDict d))"
| "table_get tbl v dflt = Inr dflt"

subsection \<open>Float arithmetic\<close>

text \<open>
  Binary64 arithmetic is the exact result rounded to the nearest representable value,
  ties to even: 53 significant bits, the last bit at exponent -1074 or above, and
  infinity from \<open>2 ^ 1024\<close> on.
\<close>

fun bit_length :: "nat \<Rightarrow> nat" where
  "bit_length n = (if n = 0 then 0 else Suc (bit_length (n div 2)))"

declare bit_length.simps [simp del]

definition round_half_even :: "int \<Rightarrow> nat \<Rightarrow> int" where
  \<comment> \<open>\<open>m / 2 ^ k\<close> rounded to the nearest integer, ties to even\<close>
  "round_half_even m k =
     (let q = m div 2 ^ k; r = m mod 2 ^ k
      in if 2 * r < 2 ^ k then q
         else if 2 * r > 2 ^ k then q + 1
         else if even q then q else q + 1)"

definition round_b64 :: "int \<Rightarrow> int \<Rightarrow> pyfloat" where
  \<comment> \<open>the binary64 value nearest to \<open>m * 2 ^ e\<close>\<close>
  "round_b64 m e =
     (if m = 0 then Fin 0 0
      else
        (let q = max (int (bit_length (nat \<bar>m\<bar>)) + e - 53) (- 1074);
             m' = (if q \<le> e then m else round_half_even m (nat (q - e)));
             e' = (if q \<le> e then e else q)
         in if int (bit_length (nat \<bar>m'\<bar>)) + e' > 1024
            then (if m < 0 then NegInf else PosInf)
            else Fin m' e'))"

fun float_add :: "pyfloat \<Rightarrow> pyfloat \<Rightarrow> pyfloat" where
  "float_add NaN y = NaN"
| "float_add x NaN = NaN"
| "float_add (Fin m1 e1) (Fin m2 e2) =
     (let e = min e1 e2 in round_b64 (m1 * 2 ^ nat (e1 - e) + m2 * 2 ^ nat (e2 - e)) e)"
| "float_add PosInf NegInf = NaN"
| "float_add NegInf PosInf = NaN"
| "float_add PosInf y = PosInf"
| "float_add NegInf y = NegInf"
| "float_add (Fin m e) y = y"

fun float_neg :: "pyfloat \<Rightarrow> pyfloat" where
  "float_neg (Fin m e) = Fin (- m) e"
| "float_neg PosInf = NegInf"
| "float_neg NegInf = PosInf"
| "float_neg NaN = NaN"

definition float_sub :: "pyfloat \<Rightarrow> pyfloat \<Rightarrow> pyfloat" where
  "float_sub x y = float_add x (float_neg y)"

fun float_abs :: "pyfloat \<Rightarrow> pyfloat" where
  "float_abs (Fin m e) = Fin \<bar>m\<bar> e"
| "float_abs NegInf = PosInf"
| "float_abs x = x"

fun py_float :: "builtins \<Rightarrow> pyval \<Rightarrow> py_error + pyfloat" where
  \<comment> \<open>\<open>float(v)\<close>\<close>
  "py_float B (PFloat f) = Inr f"
| "py_float B (PInt i) =
     (case round_b64 i 0 of
        Fin m e \<Rightarrow> Inr (Fin m e)
      | f \<Rightarrow> Inl (Raised OverflowError (ascii ''int too large to convert to float'')))"
| "py_float B (PBool b) = Inr (Fin (if b then 1 else 0) 0)"
| "py_float B (PStr s) = float_of_str B s"
| "py_float B v = Inl (Raised TypeError
      (ascii ''float() argument must be a string or a real number, not '' @
       apostrophe @ type_name v @ apostrophe))"

definition two_digits :: "nat \<Rightarrow> pystr" where
  "two_digits n = [48 + n div 10, 48 + n mod 10]"

fun format_2f :: "pyfloat \<Rightarrow> pystr" where
  \<comment> \<open>the format \<open>.2f\<close>: the exact value rounded to two decimals, ties to even\<close>
  "format_2f (Fin m e) =
     (let cents = nat (if e \<ge> 0 then \<bar>m\<bar> * 100 * 2 ^ nat e
                       else round_half_even (\<bar>m\<bar> * 100) (nat (- e)))
      in (if m < 0 then ascii ''-'' else []) @ str_of_nat (cents div 100) @ ascii ''.'' @
         two_digits (cents mod 100))"
| "format_2f PosInf = ascii ''inf''"
| "format_2f NegInf = ascii ''-inf''"
| "format_2f NaN = ascii ''nan''"
section \<open>Task results, the task factory and the dispatcher\<close>

text \<open>
  \<open>TaskResult\<close> (base_task.py:12-26). The constructor replaces a missing \<open>data\<close> by the
  empty dict. The \<open>timestamp\<close> field is the clock's and is left out.
\<close>

record task_result =
  success :: bool
  data :: pydict
  message :: pystr
  error :: "pystr option"

definition TaskResult :: "bool \<Rightarrow> pydict \<Rightarrow> pystr \<Rightarrow> pystr option \<Rightarrow> task_result" where
  "TaskResult s d m e = \<lparr>success = s, data = d, message = m, error = e\<rparr>"

definition err_unknown_task_type :: pystr where
  \<comment> \<open>task_dispatcher.py:52, prefix of the error text (unknown task type)\<close>
  "err_unknown_task_type = [0x672A, 0x77E5, 0x7684, 0x4EFB, 0x52A1, 0x7C7B, 0x578B, 0x3A, 0x20]"

definition msg_unsupported_task_type :: pystr where
  \<comment> \<open>task_dispatcher.py:53 (unsupported task type)\<close>
  "msg_unsupported_task_type = [0x4E0D, 0x652F, 0x6301, 0x7684, 0x4EFB, 0x52A1, 0x7C7B, 0x578B]"

definition msg_dispatch_system_error :: pystr where
  \<comment> \<open>task_dispatcher.py:73 (system error while executing the task)\<close>
  "msg_dispatch_system_error = [0x4EFB, 0x52A1, 0x6267, 0x884C, 0x8FC7, 0x7A0B, 0x4E2D, 0x51FA,
                               0x73B0, 0x4E86, 0x7CFB, 0x7EDF, 0x9519, 0x8BEF]"

definition err_validation_failed :: pystr where
  \<comment> \<open>base_task.py:213 (task data validation failed)\<close>
  "err_validation_failed = [0x4EFB, 0x52A1, 0x6570, 0x636E, 0x9A8C, 0x8BC1, 0x5931, 0x8D25]"

definition msg_check_input :: pystr where
  \<comment> \<open>base_task.py:218 (please check the input data)\<close>
  "msg_check_input = [0x8BF7, 0x68C0, 0x67E5, 0x8F93, 0x5165, 0x6570, 0x636E, 0x7684, 0x683C,
                     0x5F0F, 0x548C, 0x5B8C, 0x6574, 0x6027]"

definition err_execute_exception :: pystr where
  \<comment> \<open>base_task.py:235, prefix (exception during task execution)\<close>
  "err_execute_exception = [0x4EFB, 0x52A1, 0x6267, 0x884C, 0x51FA, 0x73B0, 0x5F02, 0x5E38, 0x3A,
                           0x20]"

definition msg_unexpected_error :: pystr where
  \<comment> \<open>base_task.py:240 (unexpected error during task execution)\<close>
  "msg_unexpected_error = [0x4EFB, 0x52A1, 0x6267, 0x884C, 0x8FC7, 0x7A0B, 0x4E2D, 0x51FA, 0x73B0,
                          0x4E86, 0x610F, 0x5916, 0x9519, 0x8BEF]"

text \<open>
  A handler (a subclass of \<open>BaseTask\<close>) is its three lifecycle methods. Each may raise.
  \<open>validate_data\<close> may correct the dict it is given in place, so it returns the dict too.
\<close>

record task =
  validate_data :: "pydict \<Rightarrow> py_error + (bool \<times> pydict)"
  format_data :: "pydict \<Rightarrow> py_error + pydict"
  execute :: "pydict \<Rightarrow> py_error + task_result"

definition safe_execute_body :: "task \<Rightarrow> pydict \<Rightarrow> py_error + task_result" where
  \<comment> \<open>base_task.py:209-232, the body of the \<open>try\<close>\<close>
  "safe_execute_body t d =
     (case validate_data t d of
        Inl e \<Rightarrow> Inl e
      | Inr (valid, d') \<Rightarrow>
          if \<not> valid then Inr (TaskResult False [] msg_check_input (Some err_validation_failed))
          else (case format_data t d' of
                  Inl e \<Rightarrow> Inl e
                | Inr formatted_data \<Rightarrow> execute t formatted_data))"

definition safe_execute :: "task \<Rightarrow> pydict \<Rightarrow> task_result" where
  \<comment> \<open>base_task.py:198-241\<close>
  "safe_execute t d =
     (case safe_execute_body t d of
        Inr result \<Rightarrow> result
      | Inl e \<Rightarrow> TaskResult False [] msg_unexpected_error
                  (Some (err_execute_exception @ exc_str e)))"

text \<open>
  \<open>TaskFactory._task_classes\<close> maps a task type to a class; calling the class builds a
  handler and may raise (the handlers' constructors build store clients).
\<close>

type_synonym task_classes = "pystr \<rightharpoonup> (unit \<Rightarrow> py_error + task)"

definition create_task :: "task_classes \<Rightarrow> pystr \<Rightarrow> py_error + task option" where
  \<comment> \<open>base_task.py:261-277\<close>
  "create_task task_classes task_type =
     (case task_classes task_type of
        Some task_class \<Rightarrow> (case task_class () of Inl e \<Rightarrow> Inl e | Inr t \<Rightarrow> Inr (Some t))
      | None \<Rightarrow> Inr None)"

text \<open>
  The execution history (task_dispatcher.py:23) maps an execution id to an entry. An entry
  is written by \<open>_record_task_start\<close> and completed by \<open>_record_task_result\<close>, which adds
  the end time and the fields of the result.
\<close>

record execution =
  execution_id :: pystr
  exec_task_type :: pystr
  exec_user_id :: pystr
  exec_task_data :: pydict
  start_time :: pystr
  status :: pystr
  end_time :: "pystr option"
  outcome :: "task_result option"

type_synonym task_history = "pystr \<rightharpoonup> execution"

text \<open>The three readings of the clock that \<open>execute_task\<close> makes, as the texts they format to.\<close>

record clock =
  now_timestamp :: pystr
  start_iso :: pystr
  end_iso :: pystr

definition record_task_start ::
  "clock \<Rightarrow> task_history \<Rightarrow> pystr \<Rightarrow> pydict \<Rightarrow> pystr \<Rightarrow> pystr \<times> task_history" where
  \<comment> \<open>task_dispatcher.py:415-443\<close>
  "record_task_start clk history task_type task_data user_id =
     (let eid = user_id @ ascii ''_'' @ task_type @ ascii ''_'' @ now_timestamp clk
      in (eid, history(eid \<mapsto>
            \<lparr>execution_id = eid, exec_task_type = task_type, exec_user_id = user_id,
             exec_task_data = task_data, start_time = start_iso clk,
             status = ascii ''running'', end_time = None, outcome = None\<rparr>)))"

definition record_task_result ::
  "clock \<Rightarrow> task_history \<Rightarrow> pystr \<Rightarrow> task_result \<Rightarrow> task_history" where
  \<comment> \<open>task_dispatcher.py:445-461\<close>
  "record_task_result clk history eid result =
     (case history eid of
        None \<Rightarrow> history
      | Some entry \<Rightarrow> history(eid \<mapsto>
          entry\<lparr>end_time := Some (end_iso clk), status := ascii ''completed'',
                outcome := Some result\<rparr>))"

definition execute_task_body ::
  "task_classes \<Rightarrow> clock \<Rightarrow> task_history \<Rightarrow> pystr \<Rightarrow> pydict \<Rightarrow> pystr
     \<Rightarrow> (py_error + task_result) \<times> task_history" where
  \<comment> \<open>task_dispatcher.py:45-66, the body of the \<open>try\<close>, with the history it leaves\<close>
  "execute_task_body task_classes clk history task_type task_data user_id =
     (case create_task task_classes task_type of
        Inl e \<Rightarrow> (Inl e, history)
      | Inr None \<Rightarrow>
          (Inr (TaskResult False [] msg_unsupported_task_type
                  (Some (err_unknown_task_type @ task_type))), history)
      | Inr (Some t) \<Rightarrow>
          (let (eid, h1) = record_task_start clk history task_type task_data user_id;
               result = safe_execute t task_data;
               h2 = record_task_result clk h1 eid result
           in (Inr result, h2)))"

definition execute_task ::
  "task_classes \<Rightarrow> clock \<Rightarrow> task_history \<Rightarrow> pystr \<Rightarrow> pydict \<Rightarrow> pystr
     \<Rightarrow> task_result \<times> task_history" where
  \<comment> \<open>task_dispatcher.py:27-74\<close>
  "execute_task task_classes clk history task_type task_data user_id =
     (case execute_task_body task_classes clk history task_type task_data user_id of
        (Inr result, h) \<Rightarrow> (result, h)
      | (Inl e, h) \<Rightarrow> (TaskResult False [] msg_dispatch_system_error (Some (exc_str e)), h))"

section \<open>The to-do handler\<close>

text \<open>
  The record store and the completion oracle are outside the repository. A handler sees
  them through the store client, whose methods catch every exception themselves
  (notion_client.py:253-255, 297-299, 318-320): \<open>query_database\<close> returns a list of
  records, \<open>update_page\<close> and \<open>delete_page\<close> return a bool. The functions below take the
  list a query returned and the outcome of each write as arguments, and return with their
  result the calls they made, in order.
\<close>

datatype ext_call = GenerateContent | UpdatePage pyval pydict | DeletePage pyval

definition k_id :: pystr where
  \<comment> \<open>the record key of the page id\<close>
  "k_id = [0x69, 0x64]"

definition k_title :: pystr where
  \<comment> \<open>record key: title\<close>
  "k_title = [0x6807, 0x9898]"

definition k_status :: pystr where
  \<comment> \<open>record key: status\<close>
  "k_status = [0x72B6, 0x6001]"

definition k_due_date :: pystr where
  \<comment> \<open>record key: due date\<close>
  "k_due_date = [0x622A, 0x6B62, 0x65E5, 0x671F]"

definition k_priority :: pystr where
  \<comment> \<open>record key: priority\<close>
  "k_priority = [0x4F18, 0x5148, 0x7EA7]"

definition k_category :: pystr where
  \<comment> \<open>record key: category\<close>
  "k_category = [0x5206, 0x7C7B]"

definition k_description :: pystr where
  \<comment> \<open>record key: description\<close>
  "k_description = [0x63CF, 0x8FF0]"

definition k_deleted_count :: pystr where
  \<comment> \<open>todo.py:266\<close>
  "k_deleted_count = [0x64, 0x65, 0x6C, 0x65, 0x74, 0x65, 0x64, 0x5F, 0x63, 0x6F, 0x75, 0x6E,
                     0x74]"

definition k_failed_count :: pystr where
  \<comment> \<open>todo.py:292\<close>
  "k_failed_count = [0x66, 0x61, 0x69, 0x6C, 0x65, 0x64, 0x5F, 0x63, 0x6F, 0x75, 0x6E, 0x74]"

definition msg_nothing_to_delete :: pystr where
  \<comment> \<open>todo.py:267 (no to-do items to delete)\<close>
  "msg_nothing_to_delete = [0x6CA1, 0x6709, 0x5F85, 0x529E, 0x4E8B, 0x9879, 0x9700, 0x8981,
                           0x5220, 0x9664]"

definition msg_deleted_pre :: pystr where
  \<comment> \<open>todo.py:287, before the count (successfully deleted)\<close>
  "msg_deleted_pre = [0x5DF2, 0x6210, 0x529F, 0x5220, 0x9664, 0x20]"

definition msg_deleted_post :: pystr where
  \<comment> \<open>todo.py:287, after the count (to-do items)\<close>
  "msg_deleted_post = [0x20, 0x6761, 0x5F85, 0x529E, 0x4E8B, 0x9879]"

definition msg_partial_pre :: pystr where
  \<comment> \<open>todo.py:293, before the deleted count (deleted)\<close>
  "msg_partial_pre = [0x5220, 0x9664, 0x4E86, 0x20]"

definition msg_partial_mid :: pystr where
  \<comment> \<open>todo.py:293, between the counts (to-do items,)\<close>
  "msg_partial_mid = [0x20, 0x6761, 0x5F85, 0x529E, 0x4E8B, 0x9879, 0xFF0C]"

definition msg_partial_post :: pystr where
  \<comment> \<open>todo.py:293, after the failed count (failed to delete)\<close>
  "msg_partial_post = [0x20, 0x6761, 0x5220, 0x9664, 0x5931, 0x8D25]"

definition err_no_tasks :: pystr where
  \<comment> \<open>todo.py:335 (no task found at all)\<close>
  "err_no_tasks = [0x6CA1, 0x6709, 0x627E, 0x5230, 0x4EFB, 0x4F55, 0x4EFB, 0x52A1]"

definition msg_todo_list_empty :: pystr where
  \<comment> \<open>todo.py:336 (the to-do list is empty)\<close>
  "msg_todo_list_empty = [0x5F85, 0x529E, 0x4E8B, 0x9879, 0x5217, 0x8868, 0x4E3A, 0x7A7A]"

definition err_task_not_found :: pystr where
  \<comment> \<open>todo.py:351 (task not found)\<close>
  "err_task_not_found = [0x4EFB, 0x52A1, 0x672A, 0x627E, 0x5230]"

definition msg_not_found_pre :: pystr where
  \<comment> \<open>todo.py:352, before the name (no task whose name contains)\<close>
  "msg_not_found_pre = [0x672A, 0x627E, 0x5230, 0x540D, 0x79F0, 0x5305, 0x542B, 0x300C]"

definition msg_not_found_post :: pystr where
  \<comment> \<open>todo.py:352, after the name\<close>
  "msg_not_found_post = [0x300D, 0x7684, 0x4EFB, 0x52A1]"

definition err_multiple_matches :: pystr where
  \<comment> \<open>todo.py:378 (several matching tasks)\<close>
  "err_multiple_matches = [0x591A, 0x4E2A, 0x5339, 0x914D, 0x4EFB, 0x52A1]"

definition msg_multiple_pre :: pystr where
  \<comment> \<open>todo.py:379, before the name (found several tasks containing)\<close>
  "msg_multiple_pre = [0x627E, 0x5230, 0x591A, 0x4E2A, 0x5305, 0x542B, 0x300C]"

definition msg_multiple_post :: pystr where
  \<comment> \<open>todo.py:379, after the name (please say which one), with the newline\<close>
  "msg_multiple_post = [0x300D, 0x7684, 0x4EFB, 0x52A1, 0xFF0C, 0x8BF7, 0x660E, 0x786E, 0x6307,
                       0x5B9A, 0xFF1A, 0xA]"

definition line_due :: pystr where
  \<comment> \<open>todo.py:374, between status and due date (due:)\<close>
  "line_due = [0x2C, 0x20, 0x622A, 0x6B62, 0x3A, 0x20]"

definition err_invalid_id :: pystr where
  \<comment> \<open>todo.py:386 (invalid task id)\<close>
  "err_invalid_id = [0x65E0, 0x6548, 0x7684, 0x4EFB, 0x52A1, 0x49, 0x44]"

definition msg_missing_id :: pystr where
  \<comment> \<open>todo.py:387 (the task found has no valid id)\<close>
  "msg_missing_id = [0x627E, 0x5230, 0x7684, 0x4EFB, 0x52A1, 0x7F3A, 0x5C11, 0x6709, 0x6548, 0x49,
                    0x44]"

definition err_no_update_data :: pystr where
  \<comment> \<open>todo.py:418 (nothing to update)\<close>
  "err_no_update_data = [0x6CA1, 0x6709, 0x53EF, 0x66F4, 0x65B0, 0x7684, 0x6570, 0x636E]"

definition msg_specify_update :: pystr where
  \<comment> \<open>todo.py:419 (please give a status, priority or due date)\<close>
  "msg_specify_update = [0x8BF7, 0x6307, 0x5B9A, 0x8981, 0x66F4, 0x65B0, 0x7684, 0x72B6, 0x6001,
                        0x3001, 0x4F18, 0x5148, 0x7EA7, 0x6216, 0x622A, 0x6B62, 0x65E5, 0x671F]"

definition info_status :: pystr where
  \<comment> \<open>todo.py:430\<close>
  "info_status = [0x72B6, 0x6001, 0x3A, 0x20]"

definition info_priority :: pystr where
  \<comment> \<open>todo.py:432\<close>
  "info_priority = [0x4F18, 0x5148, 0x7EA7, 0x3A, 0x20]"

definition info_due_date :: pystr where
  \<comment> \<open>todo.py:434\<close>
  "info_due_date = [0x622A, 0x6B62, 0x65E5, 0x671F, 0x3A, 0x20]"

definition msg_updated_pre :: pystr where
  \<comment> \<open>todo.py:443, before the title (updated task)\<close>
  "msg_updated_pre = [0x5DF2, 0x66F4, 0x65B0, 0x4EFB, 0x52A1, 0x300C]"

definition msg_updated_mid :: pystr where
  \<comment> \<open>todo.py:443, after the title\<close>
  "msg_updated_mid = [0x300D, 0x3A, 0x20]"

definition err_notion_update_failed :: pystr where
  \<comment> \<open>todo.py:448 (the store update failed)\<close>
  "err_notion_update_failed = [0x4E, 0x6F, 0x74, 0x69, 0x6F, 0x6E, 0x66F4, 0x65B0, 0x5931, 0x8D25]"

definition msg_update_retry :: pystr where
  \<comment> \<open>todo.py:449 (error while updating, retry later)\<close>
  "msg_update_retry = [0x66F4, 0x65B0, 0x4EFB, 0x52A1, 0x65F6, 0x51FA, 0x9519, 0xFF0C, 0x8BF7,
                      0x7A0D, 0x540E, 0x91CD, 0x8BD5]"

definition msg_update_exception :: pystr where
  \<comment> \<open>todo.py:457 (error while updating the to-do item)\<close>
  "msg_update_exception = [0x66F4, 0x65B0, 0x5F85, 0x529E, 0x4E8B, 0x9879, 0x8FC7, 0x7A0B, 0x4E2D,
                          0x51FA, 0x73B0, 0x9519, 0x8BEF]"

subsection \<open>delete_all\<close>

text \<open>
  The loop of todo.py:274-281. \<open>delete_page k page_id\<close> is the outcome of the \<open>k\<close>-th
  archive call of the run, made for \<open>page_id\<close>. The loop returns both counters and the
  calls made.
\<close>

fun delete_loop ::
  "(nat \<Rightarrow> pyval \<Rightarrow> bool) \<Rightarrow> pydict list \<Rightarrow> nat \<Rightarrow> nat \<Rightarrow> nat \<Rightarrow> nat \<times> nat \<times> nat" where
  "delete_loop delete_page [] k deleted_count failed_count = (deleted_count, failed_count, k)"
| "delete_loop delete_page (todo # rest) k deleted_count failed_count =
     (let page_id = dict_get todo k_id PNone
      in if truthy page_id then
           (if delete_page k page_id
            then delete_loop delete_page rest (Suc k) (deleted_count + 1) failed_count
            else delete_loop delete_page rest (Suc k) deleted_count (failed_count + 1))
         else delete_loop delete_page rest k deleted_count failed_count)"

definition delete_all :: "pydict list \<Rightarrow> (nat \<Rightarrow> pyval \<Rightarrow> bool) \<Rightarrow> task_result" where
  \<comment> \<open>todo.py:247-302; nothing in the body of the \<open>try\<close> raises\<close>
  "delete_all all_todos delete_page =
     (if all_todos = [] then
        TaskResult True [(k_deleted_count, PInt 0)] msg_nothing_to_delete None
      else
        (let (deleted_count, failed_count, k) = delete_loop delete_page all_todos 0 0 0
         in if failed_count = 0 then
              TaskResult True [(k_deleted_count, PInt (int deleted_count))]
                (msg_deleted_pre @ str_of_nat deleted_count @ msg_deleted_post) None
            else
              TaskResult True
                [(k_deleted_count, PInt (int deleted_count)),
                 (k_failed_count, PInt (int failed_count))]
                (msg_partial_pre @ str_of_nat deleted_count @ msg_partial_mid @
                 str_of_nat failed_count @ msg_partial_post) None))"

text \<open>
  The archive calls of a run, as the loop makes them: the page id of each call with its
  outcome.
\<close>

fun archive_calls ::
  "(nat \<Rightarrow> pyval \<Rightarrow> bool) \<Rightarrow> pydict list \<Rightarrow> nat \<Rightarrow> (pyval \<times> bool) list" where
  "archive_calls delete_page [] k = []"
| "archive_calls delete_page (todo # rest) k =
     (let page_id = dict_get todo k_id PNone
      in if truthy page_id
         then (page_id, delete_page k page_id) # archive_calls delete_page rest (Suc k)
         else archive_calls delete_page rest k)"

definition failed_archive_calls :: "(nat \<Rightarrow> pyval \<Rightarrow> bool) \<Rightarrow> pydict list \<Rightarrow> nat" where
  "failed_archive_calls delete_page all_todos =
     length (filter (\<lambda>(page_id, ok). \<not> ok) (archive_calls delete_page all_todos 0))"

definition has_id :: "pydict \<Rightarrow> bool" where
  "has_id todo = truthy (dict_get todo k_id PNone)"

subsection \<open>update_by_name: the candidates\<close>

fun find_matches :: "builtins \<Rightarrow> pystr \<Rightarrow> pydict list \<Rightarrow> py_error + pydict list" where
  \<comment> \<open>todo.py:340-344\<close>
  "find_matches B task_name [] = Inr []"
| "find_matches B task_name (todo # rest) =
     (case py_lower B (dict_get todo k_title (PStr [])) of
        Inl e \<Rightarrow> Inl e
      | Inr title \<Rightarrow>
          (case find_matches B task_name rest of
             Inl e \<Rightarrow> Inl e
           | Inr matched \<Rightarrow>
               Inr (if py_in (str_lower B task_name) title \<or> py_in title (str_lower B task_name)
                    then todo # matched else matched)))"

text \<open>
  The candidates as the specification describes them: the records whose title, lowered,
  contains the lowered name or is contained in it.
\<close>

fun title_text :: "pydict \<Rightarrow> pystr option" where
  "title_text todo = (case dict_get todo k_title (PStr []) of PStr s \<Rightarrow> Some s | _ \<Rightarrow> None)"

definition is_candidate :: "builtins \<Rightarrow> pystr \<Rightarrow> pydict \<Rightarrow> bool" where
  "is_candidate B task_name todo =
     (case title_text todo of
        None \<Rightarrow> False
      | Some s \<Rightarrow> sublist (str_lower B task_name) (str_lower B s) \<or>
                  sublist (str_lower B s) (str_lower B task_name))"

subsection \<open>update_by_name: the tie-break\<close>

text \<open>
  A name that a function body assigns anywhere (an \<open>import\<close> binds the name it imports) is
  local to the whole body, and reading it before the binding statement has run raises
  \<open>UnboundLocalError\<close>. \<open>_select_best_match_with_ai\<close> imports \<open>json\<close> and \<open>asyncio\<close> at
  todo.py:526-527, and todo.py has no import of \<open>json\<close> at module level (todo.py:6-10).
\<close>

datatype py_module = JsonModule | AsyncioModule

type_synonym locals = "pystr \<rightharpoonup> py_module"

definition load_local :: "locals \<Rightarrow> pystr \<Rightarrow> py_error + py_module" where
  "load_local frame name =
     (case frame name of
        Some m \<Rightarrow> Inr m
      | None \<Rightarrow> Inl (Raised UnboundLocalError
          (ascii ''cannot access local variable '' @ apostrophe @ name @ apostrophe @
           ascii '' where it is not associated with a value'')))"

definition locals_at_entry :: locals where
  \<comment> \<open>no import statement of the body has run\<close>
  "locals_at_entry = Map.empty"

definition locals_after_imports :: locals where
  \<comment> \<open>after todo.py:525-527\<close>
  "locals_after_imports =
     locals_at_entry(ascii ''asyncio'' \<mapsto> AsyncioModule, ascii ''json'' \<mapsto> JsonModule)"

definition candidates_info :: "pydict list \<Rightarrow> pyval" where
  \<comment> \<open>todo.py:483-494\<close>
  "candidates_info matched_tasks =
     PList (map (\<lambda>(i, task). PDict
        [(ascii ''index'', PInt (int i)),
         (ascii ''title'', dict_get task k_title (PStr [])),
         (ascii ''status'', dict_get task k_status (PStr [])),
         (ascii ''priority'', dict_get task k_priority (PStr [])),
         (ascii ''due_date'', dict_get task k_due_date (PStr [])),
         (ascii ''category'', dict_get task k_category (PStr [])),
         (ascii ''description'', dict_get task k_description (PStr []))])
       (enumerate 0 matched_tasks))"

fun py_list_index :: "pydict list \<Rightarrow> pyval \<Rightarrow> py_error + pydict" where
  \<comment> \<open>\<open>xs[i]\<close> for an index already known to satisfy \<open>0 <= i < len(xs)\<close>\<close>
  "py_list_index xs (PInt i) = Inr (xs ! nat i)"
| "py_list_index xs (PBool b) = Inr (xs ! (if b then 1 else 0))"
| "py_list_index xs v = Inl (Raised TypeError
      (ascii ''list indices must be integers or slices, not '' @ type_name v))"

definition tie_break_decision :: "pydict list \<Rightarrow> pyval \<Rightarrow> py_error + pydict option" where
  \<comment> \<open>todo.py:544-556, on the value \<open>json.loads\<close> returned\<close>
  "tie_break_decision matched_tasks result =
     (case py_getattr_get result (ascii ''selected_index'') (PInt (- 1)) of
        Inl e \<Rightarrow> Inl e
      | Inr selected_index \<Rightarrow>
     (case py_getattr_get result (ascii ''confidence'') (PFloat (Fin 0 0)) of
        Inl e \<Rightarrow> Inl e
      | Inr confidence \<Rightarrow>
     (case py_ge_num selected_index (Fin 0 0) (ascii ''int'') of
        Inl e \<Rightarrow> Inl e
      | Inr False \<Rightarrow> Inr None
      | Inr True \<Rightarrow>
     (case py_lt_num selected_index (Fin (int (length matched_tasks)) 0) (ascii ''int'') of
        Inl e \<Rightarrow> Inl e
      | Inr False \<Rightarrow> Inr None
      | Inr True \<Rightarrow>
     (case py_ge_num confidence float_0_7 (ascii ''float'') of
        Inl e \<Rightarrow> Inl e
      | Inr False \<Rightarrow> Inr None
      | Inr True \<Rightarrow>
     (case py_list_index matched_tasks selected_index of
        Inl e \<Rightarrow> Inl e
      | Inr selected_task \<Rightarrow> Inr (Some selected_task)))))))"

definition tie_break_tail ::
  "builtins \<Rightarrow> locals \<Rightarrow> (py_error + pystr) \<Rightarrow> pydict list \<Rightarrow> py_error + pydict option" where
  \<comment> \<open>todo.py:529-556 and 562. \<open>oracle_out\<close> is what building the client, the call of
      \<open>generate_content\<close> and reading \<open>response.text\<close> give: a text, or the exception raised.\<close>
  "tie_break_tail B frame oracle_out matched_tasks =
     (case oracle_out of
        Inl e \<Rightarrow> Inl e
      | Inr text \<Rightarrow>
          (let response_text = py_strip text;
               json_start = py_find 0x7B response_text;
               json_end = py_rfind 0x7D response_text + 1
           in if json_start \<ge> 0 \<and> json_end > json_start then
                (case load_local frame (ascii ''json'') of
                   Inl e \<Rightarrow> Inl e
                 | Inr json \<Rightarrow>
                     (case json_loads B (py_slice response_text json_start json_end) of
                        Inl e \<Rightarrow> Inl e
                      | Inr result \<Rightarrow> tie_break_decision matched_tasks result))
              else Inr None))"

definition select_best_match_body ::
  "builtins \<Rightarrow> (py_error + pystr) \<Rightarrow> pystr \<Rightarrow> pydict list \<Rightarrow> pystr \<Rightarrow> pystr \<Rightarrow> pystr
     \<Rightarrow> (py_error + pydict option) \<times> ext_call list" where
  \<comment> \<open>todo.py:482-556, the body of the \<open>try\<close>. The f-string of the prompt (496-522)
      evaluates its fields in order; the first that can raise is \<open>json.dumps\<close> at 506, which
      reads the local \<open>json\<close>. The text of the prompt is not represented: the oracle's
      answer is an argument.\<close>
  "select_best_match_body B oracle_out task_name matched_tasks new_status new_priority new_date =
     (let info = candidates_info matched_tasks
      in case load_local locals_at_entry (ascii ''json'') of
           Inl e \<Rightarrow> (Inl e, [])
         | Inr json \<Rightarrow>
             (tie_break_tail B locals_after_imports oracle_out matched_tasks,
              [GenerateContent]))"

definition select_best_match_with_ai ::
  "builtins \<Rightarrow> (py_error + pystr) \<Rightarrow> pystr \<Rightarrow> pydict list \<Rightarrow> pystr \<Rightarrow> pystr \<Rightarrow> pystr
     \<Rightarrow> pydict option \<times> ext_call list" where
  \<comment> \<open>todo.py:460-562: every exception of the body gives \<open>None\<close>\<close>
  "select_best_match_with_ai B oracle_out task_name matched_tasks new_status new_priority
       new_date =
     (case select_best_match_body B oracle_out task_name matched_tasks new_status new_priority
             new_date of
        (Inl e, calls) \<Rightarrow> (None, calls)
      | (Inr best, calls) \<Rightarrow> (best, calls))"

text \<open>
  What the oracle reported, read off its answer the way todo.py:536-546 reads it: the
  JSON object between the first \<open>{\<close> and the last \<open>}\<close>, and in it the confidence
  compared with 0.7 and the index compared with the bounds of the candidate list.
\<close>

definition oracle_report :: "builtins \<Rightarrow> (py_error + pystr) \<Rightarrow> pydict option" where
  "oracle_report B oracle_out =
     (case oracle_out of
        Inl e \<Rightarrow> None
      | Inr text \<Rightarrow>
          (let response_text = py_strip text;
               json_start = py_find 0x7B response_text;
               json_end = py_rfind 0x7D response_text + 1
           in if json_start \<ge> 0 \<and> json_end > json_start then
                (case json_loads B (py_slice response_text json_start json_end) of
                   Inr (PDict d) \<Rightarrow> Some d
                 | _ \<Rightarrow> None)
              else None))"

definition reported_confidence :: "pydict \<Rightarrow> pyval" where
  "reported_confidence d = dict_get d (ascii ''confidence'') (PFloat (Fin 0 0))"

definition reported_index :: "pydict \<Rightarrow> pyval" where
  "reported_index d = dict_get d (ascii ''selected_index'') (PInt (- 1))"

definition low_confidence :: "pydict \<Rightarrow> bool" where
  "low_confidence d = (py_ge_num (reported_confidence d) float_0_7 (ascii ''float'') = Inr False)"

definition index_out_of_range :: "pydict list \<Rightarrow> pydict \<Rightarrow> bool" where
  "index_out_of_range matched_tasks d =
     (py_ge_num (reported_index d) (Fin 0 0) (ascii ''int'') = Inr False \<or>
      py_lt_num (reported_index d) (Fin (int (length matched_tasks)) 0) (ascii ''int'') =
        Inr False)"

subsection \<open>update_by_name\<close>

definition candidate_line :: "builtins \<Rightarrow> nat \<times> pydict \<Rightarrow> pystr" where
  \<comment> \<open>todo.py:371-374, one line of the list of candidates\<close>
  "candidate_line B = (\<lambda>(i, task).
     str_of_nat i @ ascii ''. '' @ py_str B (dict_get task k_title (PStr [])) @ ascii '' ('' @
     py_str B (dict_get task k_status (PStr [])) @ line_due @
     py_str B (dict_get task k_due_date (PStr [])) @ ascii '')'')"

definition ambiguous_target :: "builtins \<Rightarrow> pystr \<Rightarrow> pydict list \<Rightarrow> task_result" where
  \<comment> \<open>todo.py:369-380\<close>
  "ambiguous_target B task_name matched_tasks =
     TaskResult False []
       (msg_multiple_pre @ task_name @ msg_multiple_post @
        py_join [0xA] (map (candidate_line B) (enumerate 1 matched_tasks)))
       (Some err_multiple_matches)"

definition build_update_data :: "builtins \<Rightarrow> pystr \<Rightarrow> pystr \<Rightarrow> pystr \<Rightarrow> pydict" where
  \<comment> \<open>todo.py:391-413. A date that \<open>strptime\<close> rejects is logged and left out.\<close>
  "build_update_data B new_status new_priority new_date =
     (if new_status \<noteq> []
      then [(k_status, PDict [(ascii ''select'', PDict [(ascii ''name'', PStr new_status)])])]
      else []) @
     (if new_priority \<noteq> []
      then [(k_priority, PDict [(ascii ''select'', PDict [(ascii ''name'', PStr new_priority)])])]
      else []) @
     (if new_date \<noteq> [] \<and> length new_date = 10 \<and> strptime_ymd B new_date
      then [(k_due_date, PDict [(ascii ''date'', PDict [(ascii ''start'', PStr new_date)])])]
      else [])"

definition update_info :: "pystr \<Rightarrow> pystr \<Rightarrow> pystr \<Rightarrow> pystr list" where
  \<comment> \<open>todo.py:428-434\<close>
  "update_info new_status new_priority new_date =
     (if new_status \<noteq> [] then [info_status @ new_status] else []) @
     (if new_priority \<noteq> [] then [info_priority @ new_priority] else []) @
     (if new_date \<noteq> [] then [info_due_date @ new_date] else [])"

definition apply_update ::
  "builtins \<Rightarrow> (pyval \<Rightarrow> pydict \<Rightarrow> bool) \<Rightarrow> pydict \<Rightarrow> pystr \<Rightarrow> pystr \<Rightarrow> pystr \<Rightarrow> pystr
     \<Rightarrow> task_result \<times> ext_call list" where
  \<comment> \<open>todo.py:382-450, on the record chosen\<close>
  "apply_update B update_page best_match task_name new_status new_priority new_date =
     (let page_id = dict_get best_match k_id PNone
      in if \<not> truthy page_id then
           (TaskResult False [] msg_missing_id (Some err_invalid_id), [])
         else
           (let update_data = build_update_data B new_status new_priority new_date
            in if update_data = [] then
                 (TaskResult False [] msg_specify_update (Some err_no_update_data), [])
               else if update_page page_id update_data then
                 (let task_title = dict_get best_match k_title (PStr task_name);
                      infos = update_info new_status new_priority new_date
                  in (TaskResult True
                        [(ascii ''task_name'', task_title), (ascii ''page_id'', page_id),
                         (ascii ''updates'', PList (map PStr infos))]
                        (msg_updated_pre @ py_str B task_title @ msg_updated_mid @
                         py_join (ascii '', '') infos) None,
                      [UpdatePage page_id update_data]))
               else
                 (TaskResult False [] msg_update_retry (Some err_notion_update_failed),
                  [UpdatePage page_id update_data])))"

definition update_by_name_body ::
  "builtins \<Rightarrow> pydict list \<Rightarrow> (py_error + pystr) \<Rightarrow> (pyval \<Rightarrow> pydict \<Rightarrow> bool)
     \<Rightarrow> pystr \<Rightarrow> pystr \<Rightarrow> pystr \<Rightarrow> pystr \<Rightarrow> py_error + task_result \<times> ext_call list" where
  \<comment> \<open>todo.py:324-450, the body of the \<open>try\<close>; \<open>all_todos\<close> is what the unfiltered query
      of the collection returned\<close>
  "update_by_name_body B all_todos oracle_out update_page task_name new_status new_priority
       new_date =
     (if all_todos = [] then
        Inr (TaskResult False [] msg_todo_list_empty (Some err_no_tasks), [])
      else
        (case find_matches B task_name all_todos of
           Inl e \<Rightarrow> Inl e
         | Inr [] \<Rightarrow>
             Inr (TaskResult False [] (msg_not_found_pre @ task_name @ msg_not_found_post)
                    (Some err_task_not_found), [])
         | Inr [only] \<Rightarrow>
             Inr (apply_update B update_page only task_name new_status new_priority new_date)
         | Inr matched_tasks \<Rightarrow>
             (case select_best_match_with_ai B oracle_out task_name matched_tasks new_status
                     new_priority new_date of
                (None, calls) \<Rightarrow> Inr (ambiguous_target B task_name matched_tasks, calls)
              | (Some best_match, calls) \<Rightarrow>
                  (let (result, calls') =
                         apply_update B update_page best_match task_name new_status
                           new_priority new_date
                   in Inr (result, calls @ calls')))))"

definition update_by_name ::
  "builtins \<Rightarrow> pydict list \<Rightarrow> (py_error + pystr) \<Rightarrow> (pyval \<Rightarrow> pydict \<Rightarrow> bool)
     \<Rightarrow> pystr \<Rightarrow> pystr \<Rightarrow> pystr \<Rightarrow> pystr \<Rightarrow> task_result \<times> ext_call list" where
  \<comment> \<open>todo.py:304-458\<close>
  "update_by_name B all_todos oracle_out update_page task_name new_status new_priority new_date =
     (case update_by_name_body B all_todos oracle_out update_page task_name new_status
             new_priority new_date of
        Inr r \<Rightarrow> r
      | Inl e \<Rightarrow> (TaskResult False [] msg_update_exception (Some (exc_str e)), []))"

section \<open>The intent pipeline\<close>

text \<open>
  A \<open>try\<close> with an \<open>except Exception\<close> clause: the handler runs on the exception the
  body raised.
\<close>

definition try_except :: "(py_error + 'a) \<Rightarrow> (py_error \<Rightarrow> py_error + 'a) \<Rightarrow> py_error + 'a" where
  "try_except body handler = (case body of Inl e \<Rightarrow> handler e | Inr v \<Rightarrow> Inr v)"

definition msg_understood :: pystr where
  \<comment> \<open>gemini_client.py:203 (I have understood your message, let me handle it for you)\<close>
  "msg_understood = [0x6211, 0x7406, 0x89E3, 0x4E86, 0x60A8, 0x7684, 0x6D88, 0x606F, 0xFF0C,
                    0x8BA9, 0x6211, 0x6765, 0x5E2E, 0x60A8, 0x5904, 0x7406, 0x3002]"

definition msg_cannot_process :: pystr where
  \<comment> \<open>gemini_client.py:136 and message_processor.py:108 (sorry, I cannot process your message now, please try again later)\<close>
  "msg_cannot_process = [0x62B1, 0x6B49, 0xFF0C, 0x6211, 0x73B0, 0x5728, 0x65E0, 0x6CD5, 0x5904,
                        0x7406, 0x60A8, 0x7684, 0x6D88, 0x606F, 0xFF0C, 0x8BF7, 0x7A0D, 0x540E,
                        0x518D, 0x8BD5, 0x3002]"

definition msg_confused :: pystr where
  \<comment> \<open>message_processor.py:139 (I am a little confused, could you say that again?)\<close>
  "msg_confused = [0x6211, 0x73B0, 0x5728, 0x6709, 0x70B9, 0x56F0, 0x60D1, 0xFF0C, 0x80FD, 0x518D,
                  0x8BF4, 0x4E00, 0x904D, 0x5417, 0xFF1F]"

definition chat_user_label :: pystr where
  \<comment> \<open>gemini_client.py:123, between context and message (user:)\<close>
  "chat_user_label = [0xA, 0xA, 0x7528, 0x6237, 0xFF1A]"

definition kw_daily_push :: pystr where
  \<comment> \<open>message_processor.py:126 (daily push)\<close>
  "kw_daily_push = [0x6BCF, 0x65E5, 0x63A8, 0x9001]"

definition kw_subscribe :: pystr where
  \<comment> \<open>message_processor.py:127 (subscribe)\<close>
  "kw_subscribe = [0x8BA2, 0x9605]"

definition kw_enable :: pystr where
  \<comment> \<open>message_processor.py:127 (turn on)\<close>
  "kw_enable = [0x5F00, 0x542F]"

definition kw_cancel :: pystr where
  \<comment> \<open>message_processor.py:129 (cancel)\<close>
  "kw_cancel = [0x53D6, 0x6D88]"

definition kw_disable :: pystr where
  \<comment> \<open>message_processor.py:129 (turn off)\<close>
  "kw_disable = [0x5173, 0x95ED]"

definition kw_manual :: pystr where
  \<comment> \<open>message_processor.py:131 (manual)\<close>
  "kw_manual = [0x624B, 0x52A8]"

definition kw_now :: pystr where
  \<comment> \<open>message_processor.py:131 (at once)\<close>
  "kw_now = [0x7ACB, 0x5373]"

definition msg_use_subscribe :: pystr where
  \<comment> \<open>message_processor.py:128\<close>
  "msg_use_subscribe = [0x8981, 0x8BA2, 0x9605, 0x6BCF, 0x65E5, 0x63A8, 0x9001, 0xFF0C, 0x8BF7,
                       0x4F7F, 0x7528, 0x547D, 0x4EE4, 0xFF1A, 0x2F, 0x73, 0x75, 0x62, 0x73,
                       0x63, 0x72, 0x69, 0x62, 0x65, 0x5F, 0x64, 0x61, 0x69, 0x6C, 0x79]"

definition msg_use_unsubscribe :: pystr where
  \<comment> \<open>message_processor.py:130\<close>
  "msg_use_unsubscribe = [0x8981, 0x53D6, 0x6D88, 0x6BCF, 0x65E5, 0x63A8, 0x9001, 0xFF0C, 0x8BF7,
                         0x4F7F, 0x7528, 0x547D, 0x4EE4, 0xFF1A, 0x2F, 0x75, 0x6E, 0x73, 0x75,
                         0x62, 0x73, 0x63, 0x72, 0x69, 0x62, 0x65, 0x5F, 0x64, 0x61, 0x69, 0x6C,
                         0x79]"

definition msg_use_daily_report :: pystr where
  \<comment> \<open>message_processor.py:132\<close>
  "msg_use_daily_report = [0x8981, 0x624B, 0x52A8, 0x83B7, 0x53D6, 0x4ECA, 0x65E5, 0x62A5, 0x544A,
                          0xFF0C, 0x8BF7, 0x4F7F, 0x7528, 0x547D, 0x4EE4, 0xFF1A, 0x2F, 0x64,
                          0x61, 0x69, 0x6C, 0x79, 0x5F, 0x72, 0x65, 0x70, 0x6F, 0x72, 0x74]"

definition msg_task_problem_pre :: pystr where
  \<comment> \<open>message_processor.py:186, before the task name (while handling your)\<close>
  "msg_task_problem_pre = [0x5904, 0x7406, 0x60A8, 0x7684]"

definition msg_task_problem_post :: pystr where
  \<comment> \<open>message_processor.py:186, after the task name (request a problem occurred, try again later)\<close>
  "msg_task_problem_post = [0x8BF7, 0x6C42, 0x65F6, 0x51FA, 0x73B0, 0x4E86, 0x95EE, 0x9898,
                           0xFF0C, 0x8BF7, 0x7A0D, 0x540E, 0x518D, 0x8BD5, 0x3002]"

definition msg_query_problem :: pystr where
  \<comment> \<open>message_processor.py:241\<close>
  "msg_query_problem = [0x67E5, 0x8BE2, 0x8FC7, 0x7A0B, 0x4E2D, 0x51FA, 0x73B0, 0x4E86, 0x95EE,
                       0x9898, 0xFF0C, 0x8BF7, 0x7A0D, 0x540E, 0x518D, 0x8BD5, 0x3002]"

definition msg_delete_problem :: pystr where
  \<comment> \<open>message_processor.py:363\<close>
  "msg_delete_problem = [0x5220, 0x9664, 0x8FC7, 0x7A0B, 0x4E2D, 0x51FA, 0x73B0, 0x4E86, 0x95EE,
                        0x9898, 0xFF0C, 0x8BF7, 0x7A0D, 0x540E, 0x518D, 0x8BD5, 0x3002]"

definition msg_update_problem :: pystr where
  \<comment> \<open>message_processor.py:418\<close>
  "msg_update_problem = [0x66F4, 0x65B0, 0x8FC7, 0x7A0B, 0x4E2D, 0x51FA, 0x73B0, 0x4E86, 0x95EE,
                        0x9898, 0xFF0C, 0x8BF7, 0x7A0D, 0x540E, 0x518D, 0x8BD5, 0x3002]"

definition name_accounting :: pystr where
  \<comment> \<open>message_processor.py:618\<close>
  "name_accounting = [0x8BB0, 0x8D26]"

definition name_subscription :: pystr where
  \<comment> \<open>message_processor.py:619\<close>
  "name_subscription = [0x8BA2, 0x9605]"

definition name_todo :: pystr where
  \<comment> \<open>message_processor.py:620, also the query type of gemini_client.py:439 and 518 (to-do items)\<close>
  "name_todo = [0x5F85, 0x529E, 0x4E8B, 0x9879]"

definition recent_header :: pystr where
  \<comment> \<open>message_processor.py:599 (recent conversation)\<close>
  "recent_header = [0x6700, 0x8FD1, 0x7684, 0x5BF9, 0x8BDD, 0x3A, 0xA]"

definition k_task_type :: pystr where "k_task_type = ascii ''task_type''"
definition k_confidence :: pystr where "k_confidence = ascii ''confidence''"
definition k_extracted_data :: pystr where "k_extracted_data = ascii ''extracted_data''"
definition k_response_text :: pystr where "k_response_text = ascii ''response_text''"

subsection \<open>Classification: analyze_task\<close>

definition fallback_unparsed :: "pystr \<Rightarrow> pydict" where
  \<comment> \<open>gemini_client.py:190-195\<close>
  "fallback_unparsed response_text =
     [(k_task_type, PStr (ascii ''chat'')), (k_confidence, PFloat float_0_8),
      (k_extracted_data, PDict []), (k_response_text, PStr response_text)]"

definition fallback_failed :: pydict where
  \<comment> \<open>gemini_client.py:199-204\<close>
  "fallback_failed =
     [(k_task_type, PStr (ascii ''chat'')), (k_confidence, PFloat float_0_5),
      (k_extracted_data, PDict []), (k_response_text, PStr msg_understood)]"

fun logged_dict :: "pyval \<Rightarrow> py_error + pydict" where
  \<comment> \<open>gemini_client.py:184-185: the log line calls \<open>result.get\<close>, then \<open>result\<close> is returned\<close>
  "logged_dict (PDict d) = Inr d"
| "logged_dict v = Inl (Raised AttributeError
      (apostrophe @ type_name v @ apostrophe @ ascii '' object has no attribute '' @
       apostrophe @ ascii ''get'' @ apostrophe))"

definition analyze_task_body :: "builtins \<Rightarrow> (py_error + pystr) \<Rightarrow> py_error + pydict" where
  \<comment> \<open>gemini_client.py:149-195, the body of the outer \<open>try\<close>. \<open>oracle_out\<close> is what the
      call of \<open>generate_content\<close> and reading \<open>response.text\<close> give. Of the exceptions of
      \<open>json.loads\<close> the inner \<open>except\<close> catches \<open>JSONDecodeError\<close> only.\<close>
  "analyze_task_body B oracle_out =
     (case oracle_out of
        Inl e \<Rightarrow> Inl e
      | Inr text \<Rightarrow>
          (let response_text = py_strip text;
               json_start = py_find 0x7B response_text;
               json_end = py_rfind 0x7D response_text + 1
           in if json_start \<ge> 0 \<and> json_end > json_start then
                (case json_loads B (py_slice response_text json_start json_end) of
                   Inr result \<Rightarrow> logged_dict result
                 | Inl e \<Rightarrow>
                     if exc_class_of e = JSONDecodeError
                     then Inr (fallback_unparsed response_text)
                     else Inl e)
              else Inr (fallback_unparsed response_text)))"

definition analyze_task :: "builtins \<Rightarrow> (py_error + pystr) \<Rightarrow> py_error + pydict" where
  \<comment> \<open>gemini_client.py:138-204\<close>
  "analyze_task B oracle_out =
     try_except (analyze_task_body B oracle_out) (\<lambda>e. Inr fallback_failed)"

text \<open>
  The two failures of classification, as the specification names them: the oracle call
  raised, or no JSON object could be parsed from the answer (it has no \<open>{...}\<close> island, or
  \<open>json.loads\<close> rejects the island).
\<close>

definition unparsable :: "builtins \<Rightarrow> pystr \<Rightarrow> bool" where
  "unparsable B text =
     (let response_text = py_strip text;
          json_start = py_find 0x7B response_text;
          json_end = py_rfind 0x7D response_text + 1
      in if json_start \<ge> 0 \<and> json_end > json_start then
           (case json_loads B (py_slice response_text json_start json_end) of
              Inl e \<Rightarrow> exc_class_of e = JSONDecodeError
            | Inr result \<Rightarrow> False)
         else True)"

subsection \<open>Chat\<close>

text \<open>
  What \<open>process_message\<close> works with: the oracle (\<open>generate_content\<close> gives the text of
  the response to a prompt, or the exception raised), the recognition prompt with the
  clock's fields filled in (gemini_client.py:45-107, 159-164), whether a scheduler is
  attached, and, for the four handlers that go through the dispatcher and the store, what
  the body of each handler's \<open>try\<close> does: it returns a reply or raises
  (message_processor.py:161-182, 206-237, 340-359, 383-414).
\<close>

record pipeline =
  generate_content :: "pystr \<Rightarrow> py_error + pystr"
  formatted_prompt :: pystr
  has_scheduler :: bool
  task_body :: "pystr \<Rightarrow> pystr \<Rightarrow> pydict \<Rightarrow> pystr \<Rightarrow> py_error + pystr"
  query_body :: "pystr \<Rightarrow> pydict \<Rightarrow> pystr \<Rightarrow> py_error + pystr"
  delete_body :: "pystr \<Rightarrow> pydict \<Rightarrow> pystr \<Rightarrow> py_error + pystr"
  update_body :: "pystr \<Rightarrow> pydict \<Rightarrow> pystr \<Rightarrow> py_error + pystr"

definition chat_prompt :: "pystr \<Rightarrow> pystr option \<Rightarrow> pystr" where
  \<comment> \<open>gemini_client.py:123; an empty context is falsy\<close>
  "chat_prompt msg context =
     (case context of
        None \<Rightarrow> msg
      | Some c \<Rightarrow> if c \<noteq> [] then c @ chat_user_label @ msg else msg)"

definition chat :: "pipeline \<Rightarrow> pystr \<Rightarrow> pystr option \<Rightarrow> py_error + pystr" where
  \<comment> \<open>gemini_client.py:111-136\<close>
  "chat P msg context =
     try_except
       (case generate_content P (chat_prompt msg context) of
          Inl e \<Rightarrow> Inl e
        | Inr text \<Rightarrow> Inr (py_strip text))
       (\<lambda>e. Inr msg_cannot_process)"

definition handle_chat :: "pipeline \<Rightarrow> pystr \<Rightarrow> pystr option \<Rightarrow> py_error + pystr" where
  \<comment> \<open>message_processor.py:110-139\<close>
  "handle_chat P msg context =
     try_except
       (if has_scheduler P \<and> py_in kw_daily_push msg \<and>
           (py_in kw_subscribe msg \<or> py_in kw_enable msg)
        then Inr msg_use_subscribe
        else if has_scheduler P \<and> py_in kw_daily_push msg \<and>
           (py_in kw_cancel msg \<or> py_in kw_disable msg)
        then Inr msg_use_unsubscribe
        else if has_scheduler P \<and> py_in kw_daily_push msg \<and>
           (py_in kw_manual msg \<or> py_in kw_now msg)
        then Inr msg_use_daily_report
        else chat P msg context)
       (\<lambda>e. Inr msg_confused)"

subsection \<open>The handlers behind the dispatcher\<close>

definition get_task_name :: "pystr \<Rightarrow> pystr" where
  \<comment> \<open>message_processor.py:607-622\<close>
  "get_task_name task_type =
     (if task_type = ascii ''accounting'' then name_accounting
      else if task_type = ascii ''subscription'' then name_subscription
      else if task_type = ascii ''todo'' then name_todo
      else task_type)"

definition handle_task ::
  "pipeline \<Rightarrow> pystr \<Rightarrow> pystr \<Rightarrow> pydict \<Rightarrow> pystr \<Rightarrow> py_error + pystr" where
  \<comment> \<open>message_processor.py:141-186\<close>
  "handle_task P task_type msg analysis user_id =
     try_except (task_body P task_type msg analysis user_id)
       (\<lambda>e. Inr (msg_task_problem_pre @ get_task_name task_type @ msg_task_problem_post))"

definition handle_query :: "pipeline \<Rightarrow> pystr \<Rightarrow> pydict \<Rightarrow> pystr \<Rightarrow> py_error + pystr" where
  \<comment> \<open>message_processor.py:188-241\<close>
  "handle_query P msg analysis user_id =
     try_except (query_body P msg analysis user_id) (\<lambda>e. Inr msg_query_problem)"

definition handle_delete :: "pipeline \<Rightarrow> pystr \<Rightarrow> pydict \<Rightarrow> pystr \<Rightarrow> py_error + pystr" where
  \<comment> \<open>message_processor.py:322-363\<close>
  "handle_delete P msg analysis user_id =
     try_except (delete_body P msg analysis user_id) (\<lambda>e. Inr msg_delete_problem)"

definition handle_update :: "pipeline \<Rightarrow> pystr \<Rightarrow> pydict \<Rightarrow> pystr \<Rightarrow> py_error + pystr" where
  \<comment> \<open>message_processor.py:365-418\<close>
  "handle_update P msg analysis user_id =
     try_except (update_body P msg analysis user_id) (\<lambda>e. Inr msg_update_problem)"

subsection \<open>Conversation context\<close>

record user_context =
  uc_messages :: "(pystr \<times> pyval) list"
  uc_context :: pystr
  last_task_type :: pyval

type_synonym contexts = "pystr \<rightharpoonup> user_context"

definition get_conversation_context :: "contexts \<Rightarrow> pystr \<Rightarrow> pystr option" where
  \<comment> \<open>message_processor.py:550-560\<close>
  "get_conversation_context cs user_id =
     (case cs user_id of None \<Rightarrow> None | Some uc \<Rightarrow> Some (uc_context uc))"

definition update_conversation_context ::
  "contexts \<Rightarrow> pystr \<Rightarrow> pystr \<Rightarrow> pydict \<Rightarrow> contexts" where
  \<comment> \<open>message_processor.py:562-605; the time stamps are left out\<close>
  "update_conversation_context cs user_id msg analysis =
     (let uc = (case cs user_id of
                  None \<Rightarrow> \<lparr>uc_messages = [], uc_context = [], last_task_type = PNone\<rparr>
                | Some uc \<Rightarrow> uc);
          appended = uc_messages uc @ [(msg, dict_get analysis k_task_type PNone)];
          kept = (if length appended > 10 then drop (length appended - 10) appended
                  else appended);
          recent = drop (length kept - 3) kept;
          summary = recent_header @
            concat (map (\<lambda>(m, t). ascii ''- '' @ take 50 m @ ascii ''...'' @ [0xA]) recent)
      in cs(user_id \<mapsto> \<lparr>uc_messages = kept, uc_context = summary,
                          last_task_type = dict_get analysis k_task_type PNone\<rparr>))"

subsection \<open>process_message\<close>

datatype route = RChat | RTask pystr | RQuery | RDelete | RUpdate

fun route_of_type :: "pyval \<Rightarrow> route" where
  \<comment> \<open>message_processor.py:86-104, the branches after the first\<close>
  "route_of_type (PStr s) =
     (if s = ascii ''accounting'' \<or> s = ascii ''subscription'' \<or> s = ascii ''todo''
      then RTask s
      else if s = ascii ''query'' then RQuery
      else if s = ascii ''delete'' then RDelete
      else if s = ascii ''update'' then RUpdate
      else RChat)"
| "route_of_type v = RChat"

definition choose_route :: "pyval \<Rightarrow> pyval \<Rightarrow> py_error + route" where
  \<comment> \<open>message_processor.py:82-104; \<open>or\<close> evaluates the comparison only when the task type
      is not \<open>chat\<close>, and the comparison raises on a confidence that is not a number\<close>
  "choose_route task_type confidence =
     (if task_type = PStr (ascii ''chat'') then Inr RChat
      else (case py_lt_num confidence float_0_6 (ascii ''float'') of
              Inl e \<Rightarrow> Inl e
            | Inr True \<Rightarrow> Inr RChat
            | Inr False \<Rightarrow> Inr (route_of_type task_type)))"

fun run_route ::
  "pipeline \<Rightarrow> pystr \<Rightarrow> pystr option \<Rightarrow> pydict \<Rightarrow> pystr \<Rightarrow> route \<Rightarrow> py_error + pystr" where
  "run_route P msg context analysis user_id RChat = handle_chat P msg context"
| "run_route P msg context analysis user_id (RTask task_type) =
     handle_task P task_type msg analysis user_id"
| "run_route P msg context analysis user_id RQuery = handle_query P msg analysis user_id"
| "run_route P msg context analysis user_id RDelete =
     handle_delete P msg analysis user_id"
| "run_route P msg context analysis user_id RUpdate =
     handle_update P msg analysis user_id"

definition classify :: "pipeline \<Rightarrow> builtins \<Rightarrow> pystr \<Rightarrow> py_error + pydict" where
  \<comment> \<open>message_processor.py:72 with gemini_client.py:166-171: the prompt sent is the
      recognition prompt, a newline and the message\<close>
  "classify P B msg =
     analyze_task B (generate_content P (formatted_prompt P @ [0xA] @ msg))"

definition process_message_body ::
  "pipeline \<Rightarrow> builtins \<Rightarrow> contexts \<Rightarrow> pystr \<Rightarrow> pystr \<Rightarrow> (py_error + pystr) \<times> contexts" where
  \<comment> \<open>message_processor.py:66-104, the body of the \<open>try\<close>, with the contexts it leaves\<close>
  "process_message_body P B cs msg user_id =
     (let context = get_conversation_context cs user_id
      in case classify P B msg of
           Inl e \<Rightarrow> (Inl e, cs)
         | Inr analysis \<Rightarrow>
             (let task_type = dict_get analysis k_task_type (PStr (ascii ''chat''));
                  confidence = dict_get analysis k_confidence (PFloat (Fin 0 0));
                  cs' = update_conversation_context cs user_id msg analysis
              in case choose_route task_type confidence of
                   Inl e \<Rightarrow> (Inl e, cs')
                 | Inr r \<Rightarrow> (run_route P msg context analysis user_id r, cs')))"

definition process_message ::
  "pipeline \<Rightarrow> builtins \<Rightarrow> contexts \<Rightarrow> pystr \<Rightarrow> pystr \<Rightarrow> (py_error + pystr) \<times> contexts" where
  \<comment> \<open>message_processor.py:48-108; \<open>platform\<close> is only logged\<close>
  "process_message P B cs msg user_id =
     (case process_message_body P B cs msg user_id of
        (raised_or_reply, cs') \<Rightarrow> (try_except raised_or_reply (\<lambda>e. Inr msg_cannot_process), cs'))"

section \<open>Reply synthesis for queries\<close>

definition st_in_progress :: pystr where
  \<comment> \<open>status: in progress\<close>
  "st_in_progress = [0x8FDB, 0x884C, 0x4E2D]"

definition st_pending :: pystr where
  \<comment> \<open>status: pending\<close>
  "st_pending = [0x5F85, 0x5B8C, 0x6210]"

definition st_done :: pystr where
  \<comment> \<open>status: done\<close>
  "st_done = [0x5DF2, 0x5B8C, 0x6210]"

definition st_cancelled :: pystr where
  \<comment> \<open>status: cancelled\<close>
  "st_cancelled = [0x5DF2, 0x53D6, 0x6D88]"

definition st_unknown :: pystr where
  \<comment> \<open>gemini_client.py:521, the default status (unknown)\<close>
  "st_unknown = [0x672A, 0x77E5]"

definition pr_high :: pystr where
  \<comment> \<open>priority: high\<close>
  "pr_high = [0x9AD8]"

definition pr_medium :: pystr where
  \<comment> \<open>priority: medium\<close>
  "pr_medium = [0x4E2D]"

definition pr_low :: pystr where
  \<comment> \<open>priority: low\<close>
  "pr_low = [0x4F4E]"

definition bracket_open :: pystr where
  \<comment> \<open>the opening bracket of a label\<close>
  "bracket_open = [0x3010]"

definition bracket_close :: pystr where
  \<comment> \<open>the closing bracket of a label\<close>
  "bracket_close = [0x3011]"

definition default_due :: pystr where
  \<comment> \<open>gemini_client.py:446\<close>
  "default_due = [0x39, 0x39, 0x39, 0x39, 0x2D, 0x31, 0x32, 0x2D, 0x33, 0x31]"

definition k_date :: pystr where
  \<comment> \<open>record key: date\<close>
  "k_date = [0x65E5, 0x671F]"

definition k_created :: pystr where
  \<comment> \<open>record key: creation time\<close>
  "k_created = [0x521B, 0x5EFA, 0x65F6, 0x95F4]"

definition k_edited :: pystr where
  \<comment> \<open>record key: last edit time\<close>
  "k_edited = [0x6700, 0x540E, 0x7F16, 0x8F91, 0x65F6, 0x95F4]"

definition k_url :: pystr where
  \<comment> \<open>record key: link\<close>
  "k_url = [0x75, 0x72, 0x6C]"

definition k_name :: pystr where
  \<comment> \<open>record key: name\<close>
  "k_name = [0x540D, 0x79F0]"

definition msg_none_found_pre :: pystr where
  \<comment> \<open>gemini_client.py:431, before the query type (no related)\<close>
  "msg_none_found_pre = [0x6CA1, 0x6709, 0x627E, 0x5230, 0x76F8, 0x5173, 0x7684]"

definition msg_none_pre :: pystr where
  \<comment> \<open>gemini_client.py:513, before the query type (found no)\<close>
  "msg_none_pre = [0x6CA1, 0x6709, 0x627E, 0x5230]"

definition msg_none_post :: pystr where
  \<comment> \<open>gemini_client.py:431 and 513, after the query type (records.)\<close>
  "msg_none_post = [0x8BB0, 0x5F55, 0x3002]"

definition hello_pre :: pystr where
  \<comment> \<open>gemini_client.py:515, before the query type (hello, these are your)\<close>
  "hello_pre = [0x60A8, 0x597D, 0xFF0C, 0x8FD9, 0x662F, 0x60A8, 0x7684]"

definition hello_post :: pystr where
  \<comment> \<open>gemini_client.py:515, after the query type, with the newline\<close>
  "hello_post = [0xFF1A, 0xA]"

definition item_title :: pystr where
  \<comment> \<open>gemini_client.py:554 (title:)\<close>
  "item_title = [0x20, 0x20, 0x20, 0x2D, 0x20, 0x6807, 0x9898, 0xFF1A]"

definition item_priority :: pystr where
  \<comment> \<open>gemini_client.py:558 (priority:)\<close>
  "item_priority = [0x20, 0x20, 0x20, 0x20, 0x20, 0x4F18, 0x5148, 0x7EA7, 0xFF1A]"

definition item_due :: pystr where
  \<comment> \<open>gemini_client.py:561 (due date:)\<close>
  "item_due = [0x20, 0x20, 0x20, 0x20, 0x20, 0x622A, 0x6B62, 0x65E5, 0x671F, 0xFF1A]"

definition item_description :: pystr where
  \<comment> \<open>gemini_client.py:564 (description:)\<close>
  "item_description = [0x20, 0x20, 0x20, 0x20, 0x20, 0x63CF, 0x8FF0, 0xFF1A]"

definition item_category :: pystr where
  \<comment> \<open>gemini_client.py:567 (category:)\<close>
  "item_category = [0x20, 0x20, 0x20, 0x20, 0x20, 0x5206, 0x7C7B, 0xFF1A]"

definition uncategorised :: pystr where
  \<comment> \<open>gemini_client.py:566 (uncategorised)\<close>
  "uncategorised = [0x672A, 0x5206, 0x7C7B]"

definition item_link_pre :: pystr where
  \<comment> \<open>gemini_client.py:570, before the link\<close>
  "item_link_pre = [0x20, 0x20, 0x20, 0x20, 0x20, 0x4E, 0x6F, 0x74, 0x69, 0x6F, 0x6E, 0x94FE,
                   0x63A5, 0xFF1A, 0x3C]"

definition item_link_post :: pystr where
  \<comment> \<open>gemini_client.py:570, after the link\<close>
  "item_link_post = [0x7C, 0x94FE, 0x63A5, 0x3E]"

definition item_created :: pystr where
  \<comment> \<open>gemini_client.py:573 (created:)\<close>
  "item_created = [0x20, 0x20, 0x20, 0x20, 0x20, 0x521B, 0x5EFA, 0x65F6, 0x95F4, 0xFF1A]"

definition item_edited :: pystr where
  \<comment> \<open>gemini_client.py:576 (last edited:)\<close>
  "item_edited = [0x20, 0x20, 0x20, 0x20, 0x20, 0x6700, 0x540E, 0x7F16, 0x8F91, 0x65F6, 0x95F4,
                 0xFF1A]"

definition unknown_task :: pystr where
  \<comment> \<open>gemini_client.py:544, the default title (unknown task)\<close>
  "unknown_task = [0x672A, 0x77E5, 0x4EFB, 0x52A1]"

definition unknown_item :: pystr where
  \<comment> \<open>gemini_client.py:583, the default title (unknown item)\<close>
  "unknown_item = [0x672A, 0x77E5, 0x9879, 0x76EE]"

definition total_label :: pystr where
  \<comment> \<open>gemini_client.py:588 (total records:)\<close>
  "total_label = [0x603B, 0x8BB0, 0x5F55, 0x6570, 0xFF1A]"

definition shown_label :: pystr where
  \<comment> \<open>gemini_client.py:589 (records shown:)\<close>
  "shown_label = [0x663E, 0x793A, 0x8BB0, 0x5F55, 0x6570, 0xFF1A]"

definition more_pre :: pystr where
  \<comment> \<open>gemini_client.py:592, before the count (another), with the newline\<close>
  "more_pre = [0xA, 0x8FD8, 0x6709, 0x20]"

definition more_post :: pystr where
  \<comment> \<open>gemini_client.py:592, after the count (not shown)\<close>
  "more_post = [0x20, 0x4E2A, 0x672A, 0x663E, 0x793A]"

definition all_seen_pre :: pystr where
  \<comment> \<open>gemini_client.py:594, before the query type (you have seen all)\<close>
  "all_seen_pre = [0xA, 0x60A8, 0x5DF2, 0x67E5, 0x770B, 0x5168, 0x90E8]"

definition all_seen_post :: pystr where
  \<comment> \<open>gemini_client.py:594, the full stop\<close>
  "all_seen_post = [0x3002]"

definition status_order :: "(pystr \<times> int) list" where
  \<comment> \<open>gemini_client.py:441\<close>
  "status_order = [(st_in_progress, 3), (st_pending, 2), (st_done, 1), (st_cancelled, 0)]"

definition priority_order :: "(pystr \<times> int) list" where
  \<comment> \<open>gemini_client.py:440\<close>
  "priority_order = [(pr_high, 3), (pr_medium, 2), (pr_low, 1)]"

definition todo_sort_key :: "pydict \<Rightarrow> py_error + sort_key" where
  \<comment> \<open>gemini_client.py:443-447, the key function\<close>
  "todo_sort_key x =
     (case table_get status_order (dict_get x k_status (PStr [])) 0 of
        Inl e \<Rightarrow> Inl e
      | Inr s \<Rightarrow>
          (case table_get priority_order (dict_get x k_priority (PStr [])) 0 of
             Inl e \<Rightarrow> Inl e
           | Inr p \<Rightarrow> Inr ([s, p], dict_get x k_due_date (PStr default_due))))"

definition other_sort_key :: "pydict \<Rightarrow> py_error + sort_key" where
  \<comment> \<open>gemini_client.py:450, the key function\<close>
  "other_sort_key x = Inr ([], dict_get x k_date (dict_get x k_created (PStr [])))"

definition displayed_results :: "builtins \<Rightarrow> pydict list \<Rightarrow> pystr \<Rightarrow> py_error + pydict list" where
  \<comment> \<open>gemini_client.py:434-450\<close>
  "displayed_results B query_results query_type =
     (if length query_results > 10 then
        (case collect (if query_type = name_todo then todo_sort_key else other_sort_key)
                query_results of
           Inl e \<Rightarrow> Inl e
         | Inr keys \<Rightarrow>
             (case py_sorted_reverse B (zip keys query_results) of
                Inl e \<Rightarrow> Inl e
              | Inr ordered \<Rightarrow> Inr (take 10 ordered)))
      else Inr query_results)"

subsection \<open>The fallback formatter\<close>

definition labelled :: "pystr \<Rightarrow> pystr" where
  \<comment> \<open>a text in the brackets of gemini_client.py:534-537 and 557\<close>
  "labelled s = bracket_open @ s @ bracket_close"

definition priority_text :: "builtins \<Rightarrow> pyval \<Rightarrow> py_error + pystr" where
  \<comment> \<open>gemini_client.py:557; the default is the priority itself, inserted by the f-string\<close>
  "priority_text B priority =
     (case table_get [(pr_high, Some (labelled pr_high)), (pr_medium, Some (labelled pr_medium)),
                      (pr_low, Some (labelled pr_low))] priority None of
        Inl e \<Rightarrow> Inl e
      | Inr (Some t) \<Rightarrow> Inr t
      | Inr None \<Rightarrow> Inr (py_str B priority))"

definition format_item :: "builtins \<Rightarrow> pydict \<Rightarrow> py_error + pystr list" where
  \<comment> \<open>gemini_client.py:544-579: the lines of one task, with the empty line after them\<close>
  "format_item B item =
     (let title = dict_get item k_title (PStr unknown_task);
          priority = dict_get item k_priority (PStr []);
          deadline = dict_get item k_due_date (PStr []);
          category = dict_get item k_category (PStr []);
          description = dict_get item k_description (PStr []);
          url = dict_get item k_url (PStr []);
          created_time = dict_get item k_created (PStr []);
          edited_time = dict_get item k_edited (PStr [])
      in case (if truthy priority then priority_text B priority else Inr []) of
           Inl e \<Rightarrow> Inl e
         | Inr ptext \<Rightarrow> Inr (
             [item_title @ py_str B title] @
             (if truthy priority then [item_priority @ ptext] else []) @
             (if truthy deadline then [item_due @ py_str B deadline] else []) @
             (if truthy description then [item_description @ py_str B description] else []) @
             (if truthy category \<and> category \<noteq> PStr uncategorised
              then [item_category @ py_str B category] else []) @
             (if truthy url then [item_link_pre @ py_str B url @ item_link_post] else []) @
             (if truthy created_time then [item_created @ py_str B created_time] else []) @
             (if truthy edited_time then [item_edited @ py_str B edited_time] else []) @
             [[]]))"

definition status_of :: "pydict \<Rightarrow> pyval" where
  \<comment> \<open>gemini_client.py:521\<close>
  "status_of item = dict_get item k_status (PStr st_unknown)"

definition hashable_status :: "pydict \<Rightarrow> py_error + pyval" where
  \<comment> \<open>gemini_client.py:522-524: the status is used as a key of \<open>status_groups\<close>\<close>
  "hashable_status item =
     (case table_get ([] :: (pystr \<times> unit) list) (status_of item) () of
        Inl e \<Rightarrow> Inl e
      | Inr u \<Rightarrow> Inr (status_of item))"

definition format_group :: "builtins \<Rightarrow> pydict list \<Rightarrow> pystr \<Rightarrow> py_error + pystr list" where
  \<comment> \<open>gemini_client.py:529-579, for one status of the list at 527: nothing when no record
      has the status, else the heading and the records that have it, in their order\<close>
  "format_group B results st =
     (let members = filter (\<lambda>item. status_of item = PStr st) results
      in if members = [] then Inr []
         else (case collect (format_item B) members of
                 Inl e \<Rightarrow> Inl e
               | Inr blocks \<Rightarrow> Inr ((0xA # labelled st) # concat blocks)))"

definition format_query_results_fallback ::
  "builtins \<Rightarrow> pydict list \<Rightarrow> pystr \<Rightarrow> nat \<Rightarrow> py_error + pystr" where
  \<comment> \<open>gemini_client.py:508-596\<close>
  "format_query_results_fallback B results query_type total_count =
     (if results = [] then Inr (msg_none_pre @ query_type @ msg_none_post)
      else
        (case (if query_type = name_todo then
                 (case collect hashable_status results of
                    Inl e \<Rightarrow> Inl e
                  | Inr keys \<Rightarrow>
                      (case collect (format_group B results)
                              [st_in_progress, st_pending, st_done, st_cancelled] of
                         Inl e \<Rightarrow> Inl e
                       | Inr groups \<Rightarrow> Inr (concat groups)))
               else
                 Inr (map (\<lambda>(i, item). str_of_nat i @ ascii ''. '' @
                        py_str B (dict_get item k_title (dict_get item k_name (PStr unknown_item))))
                      (enumerate 1 (take 10 results)))) of
           Inl e \<Rightarrow> Inl e
         | Inr body \<Rightarrow>
             Inr (py_join [0xA]
               ([hello_pre @ query_type @ hello_post] @ body @
                [total_label @ str_of_nat total_count,
                 shown_label @ str_of_nat (length results),
                 (if total_count > length results
                  then more_pre @ str_of_nat (total_count - length results) @ more_post
                  else all_seen_pre @ query_type @ all_seen_post)]))))"

definition generate_query_response ::
  "builtins \<Rightarrow> (py_error + pystr) \<Rightarrow> pydict list \<Rightarrow> pystr \<Rightarrow> py_error + pystr" where
  \<comment> \<open>gemini_client.py:419-506. \<open>oracle_out\<close> is what the call of \<open>generate_content\<close> on the
      prompt and reading \<open>response.text\<close> give. The sort and the fallback formatter stand
      outside the body of the \<open>try\<close>: what they raise, the function raises.\<close>
  "generate_query_response B oracle_out query_results query_type =
     (if query_results = [] then Inr (msg_none_found_pre @ query_type @ msg_none_post)
      else
        (case displayed_results B query_results query_type of
           Inl e \<Rightarrow> Inl e
         | Inr displayed \<Rightarrow>
             (case oracle_out of
                Inr answer \<Rightarrow> Inr (py_strip answer)
              | Inl e \<Rightarrow>
                  format_query_results_fallback B displayed query_type (length query_results))))"

section \<open>The daily report\<close>

text \<open>
  The record store as the handlers' queries see it: \<open>query_database\<close> of the store client,
  given the database name, the filter condition, the sorts and the limit (each \<open>None\<close> when
  absent), returns a list of records and never raises (notion_client.py:186-255).
\<close>

type_synonym store = "pystr \<Rightarrow> pyval \<Rightarrow> pyval \<Rightarrow> pyval \<Rightarrow> pydict list"

definition db_accounting :: pystr where
  \<comment> \<open>accounting.py:160\<close>
  "db_accounting = [0x61, 0x63, 0x63, 0x6F, 0x75, 0x6E, 0x74, 0x69, 0x6E, 0x67]"

definition db_todos :: pystr where
  \<comment> \<open>todo.py:207\<close>
  "db_todos = [0x74, 0x6F, 0x64, 0x6F, 0x73]"

definition k_amount :: pystr where
  \<comment> \<open>record key: amount\<close>
  "k_amount = [0x91D1, 0x989D]"

definition k_type :: pystr where
  \<comment> \<open>record key: type\<close>
  "k_type = [0x7C7B, 0x578B]"

definition v_income :: pystr where
  \<comment> \<open>type: income\<close>
  "v_income = [0x6536, 0x5165]"

definition v_expense :: pystr where
  \<comment> \<open>type: expense\<close>
  "v_expense = [0x652F, 0x51FA]"

definition msg_found_pre :: pystr where
  \<comment> \<open>accounting.py:169 and todo.py:236, before the count (found)\<close>
  "msg_found_pre = [0x627E, 0x5230, 0x20]"

definition msg_found_accounting :: pystr where
  \<comment> \<open>accounting.py:169, after the count (accounting records)\<close>
  "msg_found_accounting = [0x20, 0x6761, 0x8BB0, 0x8D26, 0x8BB0, 0x5F55]"

definition msg_found_todos :: pystr where
  \<comment> \<open>todo.py:236, after the count (to-do items)\<close>
  "msg_found_todos = [0x20, 0x6761, 0x5F85, 0x529E, 0x4E8B, 0x9879]"

definition greeting_fallback :: pystr where
  \<comment> \<open>scheduler.py:238 (good morning! a new day has begun ...)\<close>
  "greeting_fallback = [0x65E9, 0x5B89, 0xFF01, 0x65B0, 0x7684, 0x4E00, 0x5929, 0x5F00, 0x59CB,
                       0x4E86, 0xFF0C, 0x613F, 0x60A8, 0x5DE5, 0x4F5C, 0x987A, 0x5229, 0xFF0C,
                       0x5FC3, 0x60C5, 0x6109, 0x5FEB, 0xFF01]"

definition report_morning :: pystr where
  \<comment> \<open>scheduler.py:192 (good morning)\<close>
  "report_morning = [0x3010, 0x65E9, 0x5B89, 0x3011]"

definition report_today_is :: pystr where
  \<comment> \<open>scheduler.py:193 (today is)\<close>
  "report_today_is = [0x4ECA, 0x5929, 0x662F, 0x20]"

definition report_finance_title :: pystr where
  \<comment> \<open>scheduler.py:195 (yesterday's income and expenses)\<close>
  "report_finance_title = [0x3010, 0x6628, 0x65E5, 0x6536, 0x652F, 0x3011]"

definition report_todo_title :: pystr where
  \<comment> \<open>scheduler.py:198 (today's to-dos)\<close>
  "report_todo_title = [0x3010, 0x4ECA, 0x65E5, 0x5F85, 0x529E, 0x3011]"

definition report_closing :: pystr where
  \<comment> \<open>scheduler.py:201 (have a good day)\<close>
  "report_closing = [0x795D, 0x60A8, 0x4ECA, 0x5929, 0x5DE5, 0x4F5C, 0x987A, 0x5229, 0xFF0C,
                    0x5FC3, 0x60C5, 0x6109, 0x5FEB, 0xFF01]"

definition report_failed_pre :: pystr where
  \<comment> \<open>scheduler.py:208, before the date (good morning! today is)\<close>
  "report_failed_pre = [0x65E9, 0x5B89, 0xFF01, 0x4ECA, 0x5929, 0x662F, 0x20]"

definition report_failed_post :: pystr where
  \<comment> \<open>scheduler.py:208, after the date (a problem occurred while generating the report)\<close>
  "report_failed_post = [0xFF0C, 0x7CFB, 0x7EDF, 0x751F, 0x6210, 0x62A5, 0x544A, 0x65F6, 0x51FA,
                        0x73B0, 0x95EE, 0x9898, 0xFF0C, 0x8BF7, 0x7A0D, 0x540E, 0x67E5, 0x770B,
                        0x8BE6, 0x7EC6, 0x4FE1, 0x606F, 0x3002]"

definition manual_failed_pre :: pystr where
  \<comment> \<open>scheduler.py:399 (generating the report failed:)\<close>
  "manual_failed_pre = [0x751F, 0x6210, 0x62A5, 0x544A, 0x5931, 0x8D25, 0x3A, 0x20]"

definition fin_query_failed :: pystr where
  \<comment> \<open>scheduler.py:256 (could not fetch yesterday's accounting data)\<close>
  "fin_query_failed = [0x6628, 0x65E5, 0x8BB0, 0x8D26, 0x6570, 0x636E, 0x83B7, 0x53D6, 0x5931,
                      0x8D25]"

definition fin_no_records :: pystr where
  \<comment> \<open>scheduler.py:261 and 296 (no income or expense records yesterday)\<close>
  "fin_no_records = [0x6628, 0x65E5, 0x6682, 0x65E0, 0x6536, 0x652F, 0x8BB0, 0x5F55]"

definition fin_income :: pystr where
  \<comment> \<open>scheduler.py:280 (income:)\<close>
  "fin_income = [0x6536, 0x5165, 0xFF1A]"

definition fin_expense :: pystr where
  \<comment> \<open>scheduler.py:283 (expense:)\<close>
  "fin_expense = [0x652F, 0x51FA, 0xFF1A]"

definition fin_net_income :: pystr where
  \<comment> \<open>scheduler.py:288 (net income:)\<close>
  "fin_net_income = [0x51C0, 0x6536, 0x5165, 0xFF1A]"

definition fin_net_expense :: pystr where
  \<comment> \<open>scheduler.py:290 (net expense:)\<close>
  "fin_net_expense = [0x51C0, 0x652F, 0x51FA, 0xFF1A]"

definition fin_balanced :: pystr where
  \<comment> \<open>scheduler.py:292 (balanced)\<close>
  "fin_balanced = [0x6536, 0x652F, 0x5E73, 0x8861]"

definition fin_yuan :: pystr where
  \<comment> \<open>scheduler.py:280 (yuan)\<close>
  "fin_yuan = [0x5143]"

definition fin_count_pre :: pystr where
  \<comment> \<open>scheduler.py:294, before the count (in all)\<close>
  "fin_count_pre = [0x5171, 0x20]"

definition fin_count_post :: pystr where
  \<comment> \<open>scheduler.py:294, after the count (records)\<close>
  "fin_count_post = [0x20, 0x7B14, 0x8BB0, 0x5F55]"

definition fin_failed :: pystr where
  \<comment> \<open>scheduler.py:300 (could not fetch yesterday's income and expenses)\<close>
  "fin_failed = [0x6628, 0x65E5, 0x6536, 0x652F, 0x60C5, 0x51B5, 0x83B7, 0x53D6, 0x5931, 0x8D25]"

definition todo_failed :: pystr where
  \<comment> \<open>scheduler.py:317 and 379 (could not fetch today's to-dos)\<close>
  "todo_failed = [0x4ECA, 0x65E5, 0x5F85, 0x529E, 0x4E8B, 0x9879, 0x83B7, 0x53D6, 0x5931, 0x8D25]"

definition todo_overdue_title :: pystr where
  \<comment> \<open>scheduler.py:348 (overdue tasks)\<close>
  "todo_overdue_title = [0x3010, 0x903E, 0x671F, 0x4EFB, 0x52A1, 0x3011]"

definition todo_overdue_mark :: pystr where
  \<comment> \<open>scheduler.py:354 (overdue:)\<close>
  "todo_overdue_mark = [0x20, 0x28, 0x903E, 0x671F, 0x3A, 0x20]"

definition todo_more_pre :: pystr where
  \<comment> \<open>scheduler.py:357 and 371, before the count (another)\<close>
  "todo_more_pre = [0x2E, 0x2E, 0x2E, 0x20, 0x8FD8, 0x6709, 0x20]"

definition todo_more_overdue :: pystr where
  \<comment> \<open>scheduler.py:357, after the count (overdue tasks)\<close>
  "todo_more_overdue = [0x20, 0x4E2A, 0x903E, 0x671F, 0x4EFB, 0x52A1]"

definition todo_today_title :: pystr where
  \<comment> \<open>scheduler.py:361 (today's tasks)\<close>
  "todo_today_title = [0x3010, 0x4ECA, 0x65E5, 0x4EFB, 0x52A1, 0x3011]"

definition todo_more_tasks :: pystr where
  \<comment> \<open>scheduler.py:371, after the count (tasks)\<close>
  "todo_more_tasks = [0x20, 0x4E2A, 0x4EFB, 0x52A1]"

definition todo_none_dated :: pystr where
  \<comment> \<open>scheduler.py:373 (no task with a due date for today)\<close>
  "todo_none_dated = [0x4ECA, 0x65E5, 0x6682, 0x65E0, 0x7279, 0x5B9A, 0x622A, 0x6B62, 0x65E5,
                     0x671F, 0x7684, 0x4EFB, 0x52A1]"

definition todo_none :: pystr where
  \<comment> \<open>scheduler.py:375 (no to-dos today)\<close>
  "todo_none = [0x4ECA, 0x65E5, 0x6682, 0x65E0, 0x5F85, 0x529E, 0x4E8B, 0x9879]"

definition weekday_names :: "pystr list" where
  \<comment> \<open>scheduler.py:179, Monday to Sunday\<close>
  "weekday_names = [[0x5468, 0x4E00], [0x5468, 0x4E8C], [0x5468, 0x4E09], [0x5468, 0x56DB],
                    [0x5468, 0x4E94], [0x5468, 0x516D], [0x5468, 0x65E5]]"

text \<open>
  The readings of the clock: today's and yesterday's date as \<open>%Y-%m-%d\<close>, the index of
  the weekday, and the two ISO time stamps the to-do query puts into its filters.
\<close>

record report_clock =
  today :: pystr
  yesterday :: pystr
  weekday :: nat
  now_iso :: pystr
  tomorrow_iso :: pystr

subsection \<open>The handlers' queries\<close>

definition property_filter :: "pystr \<Rightarrow> pystr \<Rightarrow> pystr \<Rightarrow> pyval \<Rightarrow> pyval" where
  \<comment> \<open>\<open>{"property": name, kind: {relation: v}}\<close>\<close>
  "property_filter name kind relation v =
     PDict [(ascii ''property'', PStr name), (kind, PDict [(relation, v)])]"

definition combine_filters :: "pyval list \<Rightarrow> pyval" where
  \<comment> \<open>accounting.py:153-156 and todo.py:198-201\<close>
  "combine_filters filter_parts =
     (case filter_parts of
        [] \<Rightarrow> PNone
      | [f] \<Rightarrow> f
      | f # g # fs \<Rightarrow> PDict [(ascii ''and'', PList (f # g # fs))])"

definition query_result :: "pydict list \<Rightarrow> pystr \<Rightarrow> task_result" where
  \<comment> \<open>accounting.py:166-170 and todo.py:233-237\<close>
  "query_result results unit_text =
     TaskResult True
       [(ascii ''records'', PList (map PDict results)),
        (ascii ''count'', PInt (int (length results)))]
       (msg_found_pre @ str_of_nat (length results) @ unit_text) None"

definition has_key :: "pydict \<Rightarrow> pystr \<Rightarrow> bool" where
  \<comment> \<open>\<open>k in d\<close>\<close>
  "has_key d k = (map_of d k \<noteq> None)"

definition accounting_query :: "store \<Rightarrow> pydict \<Rightarrow> task_result" where
  \<comment> \<open>accounting.py:112-177; nothing in the body of the \<open>try\<close> raises. The keys read are
      \<open>type\<close>, \<open>category\<close>, \<open>date_from\<close>, \<open>date_to\<close> and \<open>limit\<close>.\<close>
  "accounting_query store filters =
     (let filter_parts =
            (if filters \<noteq> [] then
               (case map_of filters (ascii ''type'') of
                  Some v \<Rightarrow> [property_filter k_type (ascii ''select'') (ascii ''equals'') v]
                | None \<Rightarrow> []) @
               (case map_of filters (ascii ''category'') of
                  Some v \<Rightarrow> [property_filter k_category (ascii ''select'') (ascii ''equals'') v]
                | None \<Rightarrow> []) @
               (if has_key filters (ascii ''date_from'') \<or> has_key filters (ascii ''date_to'')
                then [PDict [(ascii ''property'', PStr k_date),
                        (ascii ''date'', PDict (
                           (case map_of filters (ascii ''date_from'') of
                              Some v \<Rightarrow> [(ascii ''on_or_after'', v)] | None \<Rightarrow> []) @
                           (case map_of filters (ascii ''date_to'') of
                              Some v \<Rightarrow> [(ascii ''on_or_before'', v)] | None \<Rightarrow> [])))]]
                else [])
             else []);
          sorts = PList [PDict [(ascii ''property'', PStr k_date),
                                (ascii ''direction'', PStr (ascii ''descending''))]];
          limit = (if filters \<noteq> [] then dict_get filters (ascii ''limit'') (PInt 20)
                   else PInt 20)
      in query_result (store db_accounting (combine_filters filter_parts) sorts limit)
           msg_found_accounting)"

definition py_or :: "pyval \<Rightarrow> pyval \<Rightarrow> pyval" where
  \<comment> \<open>\<open>a or b\<close>\<close>
  "py_or a b = (if truthy a then a else b)"

definition todo_query :: "store \<Rightarrow> report_clock \<Rightarrow> pydict \<Rightarrow> task_result" where
  \<comment> \<open>todo.py:115-245; nothing in the body of the \<open>try\<close> raises. The second query of
      213-230 only feeds the log.\<close>
  "todo_query store clk filters =
     (let filter_parts =
            (if filters \<noteq> [] then
               (let status_filter = py_or (dict_get filters (ascii ''status'') PNone)
                                          (dict_get filters k_status PNone);
                    priority_filter = py_or (dict_get filters (ascii ''priority'') PNone)
                                            (dict_get filters k_priority PNone);
                    category_filter = py_or (dict_get filters (ascii ''category'') PNone)
                                            (dict_get filters k_category PNone);
                    due_date_filter = py_or (dict_get filters (ascii ''due_date'') PNone)
                                            (dict_get filters k_due_date PNone)
                in (if truthy status_filter
                    then [property_filter k_status (ascii ''select'') (ascii ''equals'')
                            status_filter]
                    else []) @
                   (if truthy priority_filter
                    then [property_filter k_priority (ascii ''select'') (ascii ''equals'')
                            priority_filter]
                    else []) @
                   (if truthy category_filter
                    then [property_filter k_category (ascii ''select'') (ascii ''equals'')
                            category_filter]
                    else []) @
                   (case due_date_filter of
                      PStr s \<Rightarrow>
                        (if s \<noteq> []
                         then [property_filter k_due_date (ascii ''date'') (ascii ''equals'')
                                 (PStr (if length s = 10 then s @ ascii ''T00:00:00.000Z''
                                        else s))]
                         else [])
                    | _ \<Rightarrow> []) @
                   (if truthy (dict_get filters (ascii ''due_soon'') PNone)
                    then [property_filter k_due_date (ascii ''date'') (ascii ''on_or_before'')
                            (PStr (tomorrow_iso clk))]
                    else []) @
                   (if truthy (dict_get filters (ascii ''overdue'') PNone)
                    then [PDict [(ascii ''and'', PList
                            [property_filter k_due_date (ascii ''date'') (ascii ''before'')
                               (PStr (now_iso clk)),
                             property_filter k_status (ascii ''select'')
                               (ascii ''does_not_equal'') (PStr st_done)])]]
                    else []))
             else []);
          sorts = PList [PDict [(ascii ''property'', PStr k_due_date),
                                (ascii ''direction'', PStr (ascii ''ascending''))]];
          limit = (if filters \<noteq> [] then dict_get filters (ascii ''limit'') (PInt 20)
                   else PInt 20)
      in query_result (store db_todos (combine_filters filter_parts) sorts limit)
           msg_found_todos)"

subsection \<open>The parts of the report\<close>

definition py_strip_chars :: "pystr \<Rightarrow> pystr \<Rightarrow> pystr" where
  \<comment> \<open>\<open>s.strip(chars)\<close>\<close>
  "py_strip_chars chars s =
     rev (dropWhile (\<lambda>c. c \<in> set chars) (rev (dropWhile (\<lambda>c. c \<in> set chars) s)))"

definition generate_morning_greeting :: "(py_error + pystr) \<Rightarrow> pystr" where
  \<comment> \<open>scheduler.py:210-238. \<open>oracle_out\<close> is what the call of \<open>generate_content\<close> on the
      greeting prompt and reading \<open>response.text\<close> give.\<close>
  "generate_morning_greeting oracle_out =
     (case oracle_out of
        Inr answer \<Rightarrow> py_strip_chars apostrophe (py_strip_chars [0x22] (py_strip answer))
      | Inl e \<Rightarrow> greeting_fallback)"

fun py_iter :: "pyval \<Rightarrow> py_error + pyval list" where
  \<comment> \<open>the elements a \<open>for\<close> loop visits\<close>
  "py_iter (PList xs) = Inr xs"
| "py_iter (PDict d) = Inr (map (\<lambda>(k, v). PStr k) d)"
| "py_iter (PStr s) = Inr (map (\<lambda>c. PStr [c]) s)"
| "py_iter v = Inl (Raised TypeError
      (apostrophe @ type_name v @ apostrophe @ ascii '' object is not iterable''))"

fun sum_records ::
  "builtins \<Rightarrow> pyval list \<Rightarrow> pyfloat \<Rightarrow> pyfloat \<Rightarrow> py_error + pyfloat \<times> pyfloat" where
  \<comment> \<open>scheduler.py:267-274\<close>
  "sum_records B [] income expense = Inr (income, expense)"
| "sum_records B (record # rest) income expense =
     (case py_getattr_get record k_amount (PInt 0) of
        Inl e \<Rightarrow> Inl e
      | Inr a \<Rightarrow>
     (case py_float B a of
        Inl e \<Rightarrow> Inl e
      | Inr amount \<Rightarrow>
     (case py_getattr_get record k_type (PStr []) of
        Inl e \<Rightarrow> Inl e
      | Inr record_type \<Rightarrow>
          if record_type = PStr v_income
          then sum_records B rest (float_add income amount) expense
          else if record_type = PStr v_expense
          then sum_records B rest income (float_add expense amount)
          else sum_records B rest income expense)))"

definition positive :: "pyfloat \<Rightarrow> bool" where
  \<comment> \<open>\<open>x > 0\<close>\<close>
  "positive x = float_less (Fin 0 0) x"

definition financial_summary_body :: "builtins \<Rightarrow> store \<Rightarrow> pystr \<Rightarrow> py_error + pystr" where
  \<comment> \<open>scheduler.py:251-296, the body of the \<open>try\<close>\<close>
  "financial_summary_body B store yesterday_date =
     (let filters = [(k_date, PStr yesterday_date)];
          result = accounting_query store filters
      in if \<not> success result then Inr fin_query_failed
         else
           (let records = dict_get (data result) (ascii ''records'') (PList [])
            in if \<not> truthy records then Inr fin_no_records
               else
                 (case py_iter records of
                    Inl e \<Rightarrow> Inl e
                  | Inr rs \<Rightarrow>
                      (case sum_records B rs (Fin 0 0) (Fin 0 0) of
                         Inl e \<Rightarrow> Inl e
                       | Inr (income, expense) \<Rightarrow>
                           (let net = float_sub income expense;
                                summary_parts =
                                  (if positive income
                                   then [fin_income @ format_2f income @ fin_yuan] else []) @
                                  (if positive expense
                                   then [fin_expense @ format_2f expense @ fin_yuan] else []) @
                                  (if positive income \<or> positive expense
                                   then [if positive net
                                         then fin_net_income @ format_2f net @ fin_yuan
                                         else if float_less net (Fin 0 0)
                                         then fin_net_expense @ format_2f (float_abs net) @
                                              fin_yuan
                                         else fin_balanced,
                                         fin_count_pre @ str_of_nat (length rs) @ fin_count_post]
                                   else [])
                            in Inr (if summary_parts \<noteq> []
                                    then py_join (ascii '' | '') summary_parts
                                    else fin_no_records))))))"

definition get_yesterday_financial_summary :: "builtins \<Rightarrow> store \<Rightarrow> pystr \<Rightarrow> pystr" where
  \<comment> \<open>scheduler.py:240-300\<close>
  "get_yesterday_financial_summary B store yesterday_date =
     (case financial_summary_body B store yesterday_date of
        Inr s \<Rightarrow> s
      | Inl e \<Rightarrow> fin_failed)"

definition py_lt_str :: "pyval \<Rightarrow> pystr \<Rightarrow> py_error + bool" where
  \<comment> \<open>\<open>v < s\<close> for a string \<open>s\<close>\<close>
  "py_lt_str v s =
     (case v of
        PStr t \<Rightarrow> Inr (str_less t s)
      | _ \<Rightarrow> Inl (not_supported ''<'' v (ascii ''str'')))"

fun split_todos ::
  "pystr \<Rightarrow> pyval list \<Rightarrow> py_error + pyval list \<times> pyval list" where
  \<comment> \<open>scheduler.py:325-342: the tasks of today and the overdue tasks, in their order\<close>
  "split_todos today_date [] = Inr ([], [])"
| "split_todos today_date (todo # rest) =
     (case py_getattr_get todo k_status (PStr []) of
        Inl e \<Rightarrow> Inl e
      | Inr st \<Rightarrow>
     (case py_getattr_get todo k_due_date (PStr []) of
        Inl e \<Rightarrow> Inl e
      | Inr due_date \<Rightarrow>
     (case (if st = PStr st_done \<or> st = PStr st_cancelled then Inr (False, False)
            else if \<not> truthy due_date then Inr (True, False)
            else if due_date = PStr today_date then Inr (True, False)
            else (case py_lt_str due_date today_date of
                    Inl e \<Rightarrow> Inl e
                  | Inr lt \<Rightarrow> Inr (False, lt))) of
        Inl e \<Rightarrow> Inl e
      | Inr (is_today, is_overdue) \<Rightarrow>
          (case split_todos today_date rest of
             Inl e \<Rightarrow> Inl e
           | Inr (today_todos, overdue_todos) \<Rightarrow>
               Inr (if is_today then todo # today_todos else today_todos,
                    if is_overdue then todo # overdue_todos else overdue_todos)))))"

definition bracket_text :: "pystr list \<Rightarrow> pyval \<Rightarrow> py_error + pystr" where
  \<comment> \<open>scheduler.py:353, 366 and 367: the label of a known value, else the empty string\<close>
  "bracket_text known v = table_get (map (\<lambda>s. (s, labelled s)) known) v []"

definition overdue_line :: "builtins \<Rightarrow> pyval \<Rightarrow> py_error + pystr" where
  \<comment> \<open>scheduler.py:350-354\<close>
  "overdue_line B todo =
     (case py_getattr_get todo k_title (PStr []) of
        Inl e \<Rightarrow> Inl e
      | Inr title \<Rightarrow>
     (case py_getattr_get todo k_priority (PStr []) of
        Inl e \<Rightarrow> Inl e
      | Inr priority \<Rightarrow>
     (case py_getattr_get todo k_due_date (PStr []) of
        Inl e \<Rightarrow> Inl e
      | Inr due_date \<Rightarrow>
     (case bracket_text [pr_high, pr_medium, pr_low] priority of
        Inl e \<Rightarrow> Inl e
      | Inr ptext \<Rightarrow>
          Inr (ascii ''- '' @ py_str B title @ ascii '' '' @ ptext @ todo_overdue_mark @
               py_str B due_date @ ascii '')'')))))"

definition today_line :: "builtins \<Rightarrow> pyval \<Rightarrow> py_error + pystr" where
  \<comment> \<open>scheduler.py:363-368\<close>
  "today_line B todo =
     (case py_getattr_get todo k_title (PStr []) of
        Inl e \<Rightarrow> Inl e
      | Inr title \<Rightarrow>
     (case py_getattr_get todo k_priority (PStr []) of
        Inl e \<Rightarrow> Inl e
      | Inr priority \<Rightarrow>
     (case py_getattr_get todo k_status (PStr []) of
        Inl e \<Rightarrow> Inl e
      | Inr st \<Rightarrow>
     (case bracket_text [pr_high, pr_medium, pr_low] priority of
        Inl e \<Rightarrow> Inl e
      | Inr ptext \<Rightarrow>
     (case bracket_text [st_in_progress, st_pending] st of
        Inl e \<Rightarrow> Inl e
      | Inr stext \<Rightarrow>
          Inr (ascii ''- '' @ py_str B title @ ascii '' '' @ ptext @ ascii '' '' @ stext))))))"

definition today_todos_body ::
  "builtins \<Rightarrow> store \<Rightarrow> report_clock \<Rightarrow> pystr \<Rightarrow> py_error + pystr" where
  \<comment> \<open>scheduler.py:313-375, the body of the \<open>try\<close>\<close>
  "today_todos_body B store clk today_date =
     (let all_result = todo_query store clk []
      in if \<not> success all_result then Inr todo_failed
         else
           (case py_iter (dict_get (data all_result) (ascii ''records'') (PList [])) of
              Inl e \<Rightarrow> Inl e
            | Inr all_todos \<Rightarrow>
           (case split_todos today_date all_todos of
              Inl e \<Rightarrow> Inl e
            | Inr (today_todos, overdue_todos) \<Rightarrow>
           (case collect (overdue_line B) (take 3 overdue_todos) of
              Inl e \<Rightarrow> Inl e
            | Inr overdue_lines \<Rightarrow>
           (case collect (today_line B) (take 5 today_todos) of
              Inl e \<Rightarrow> Inl e
            | Inr today_lines \<Rightarrow>
               (let todo_parts =
                      (if overdue_todos \<noteq> [] then
                         [todo_overdue_title] @ overdue_lines @
                         (if length overdue_todos > 3
                          then [todo_more_pre @ str_of_nat (length overdue_todos - 3) @
                                todo_more_overdue]
                          else []) @
                         [[]]
                       else []) @
                      (if today_todos \<noteq> [] then
                         [todo_today_title] @ today_lines @
                         (if length today_todos > 5
                          then [todo_more_pre @ str_of_nat (length today_todos - 5) @
                                todo_more_tasks]
                          else [])
                       else [todo_none_dated])
                in Inr (if todo_parts \<noteq> [] then py_join [0xA] todo_parts else todo_none)))))))"

definition get_today_todos :: "builtins \<Rightarrow> store \<Rightarrow> report_clock \<Rightarrow> pystr \<Rightarrow> pystr" where
  \<comment> \<open>scheduler.py:302-379\<close>
  "get_today_todos B store clk today_date =
     (case today_todos_body B store clk today_date of
        Inr s \<Rightarrow> s
      | Inl e \<Rightarrow> todo_failed)"

subsection \<open>The report\<close>

definition weekday_name :: "nat \<Rightarrow> py_error + pystr" where
  \<comment> \<open>scheduler.py:179, the list indexed by \<open>now.weekday()\<close>\<close>
  "weekday_name w =
     (if w < length weekday_names then Inr (weekday_names ! w)
      else Inl (Raised IndexError (ascii ''list index out of range'')))"

definition daily_report_body ::
  "builtins \<Rightarrow> store \<Rightarrow> report_clock \<Rightarrow> (py_error + pystr) \<Rightarrow> py_error + pystr" where
  \<comment> \<open>scheduler.py:176-204, the body of the \<open>try\<close>\<close>
  "daily_report_body B store clk oracle_out =
     (case weekday_name (weekday clk) of
        Inl e \<Rightarrow> Inl e
      | Inr wd \<Rightarrow>
          (let greeting = generate_morning_greeting oracle_out;
               yesterday_financial = get_yesterday_financial_summary B store (yesterday clk);
               today_todos = get_today_todos B store clk (today clk)
           in Inr (py_join [0xA]
                [report_morning @ greeting,
                 report_today_is @ today clk @ ascii '' '' @ wd,
                 [],
                 report_finance_title,
                 yesterday_financial,
                 [],
                 report_todo_title,
                 today_todos,
                 [],
                 report_closing])))"

definition generate_daily_report ::
  "builtins \<Rightarrow> store \<Rightarrow> report_clock \<Rightarrow> (py_error + pystr) \<Rightarrow> pystr" where
  \<comment> \<open>scheduler.py:165-208; the user id is not used\<close>
  "generate_daily_report B store clk oracle_out =
     (case daily_report_body B store clk oracle_out of
        Inr report \<Rightarrow> report
      | Inl e \<Rightarrow> report_failed_pre @ today clk @ report_failed_post)"

definition send_manual_daily_report ::
  "builtins \<Rightarrow> store \<Rightarrow> report_clock \<Rightarrow> (py_error + pystr) \<Rightarrow> py_error + pystr" where
  \<comment> \<open>scheduler.py:382-399; platform and user id are not used\<close>
  "send_manual_daily_report B store clk oracle_out =
     try_except (Inr (generate_daily_report B store clk oracle_out))
       (\<lambda>e. Inr (manual_failed_pre @ exc_str e))"

section \<open>Concrete inputs used to instantiate the theorems\<close>

definition example_clock :: clock where
  "example_clock = \<lparr>now_timestamp = ascii ''1714550400.0'',
                    start_iso = ascii ''2024-05-01T08:00:00+00:00'',
                    end_iso = ascii ''2024-05-01T08:00:01+00:00''\<rparr>"

definition example_task :: task where
  \<comment> \<open>a handler that accepts every dict and reports success\<close>
  "example_task = \<lparr>validate_data = (\<lambda>d. Inr (True, d)), format_data = (\<lambda>d. Inr d),
                   execute = (\<lambda>d. Inr (TaskResult True [] (ascii ''ok'') None))\<rparr>"

definition example_classes :: task_classes where
  "example_classes = [ascii ''todo'' \<mapsto> (\<lambda>_. Inr example_task)]"

text \<open>
  Stand-ins for the built-in parameters, right on the inputs used below: \<open>str.lower\<close> on
  ASCII text, and \<open>json.loads\<close> on three texts: \<open>{}\<close>, which it parses to the empty
  dict, and two JSON objects with two members each. The inputs below hold no float, no
  container and no number as text in a place where \<open>str()\<close> or \<open>float()\<close> is applied,
  and every sort key among them ends in a string, so the other three stand-ins are never
  consulted.
\<close>

definition dquote :: pystr where
  "dquote = [0x22]"

definition confident_answer :: pystr where
  "confident_answer =
     ascii ''{'' @ dquote @ ascii ''selected_index'' @ dquote @ ascii '': 0, '' @
     dquote @ ascii ''confidence'' @ dquote @ ascii '': 0.9}''"

definition float_0_9 :: pyfloat where
  "float_0_9 = Fin 8106479329266893 (- 53)"

definition hesitant_todo_answer :: pystr where
  "hesitant_todo_answer =
     ascii ''{'' @ dquote @ ascii ''task_type'' @ dquote @ ascii '': '' @
     dquote @ ascii ''todo'' @ dquote @ ascii '', '' @
     dquote @ ascii ''confidence'' @ dquote @ ascii '': 0.5}''"

definition example_builtins :: builtins where
  "example_builtins =
     \<lparr>str_lower = map (\<lambda>c. if 65 \<le> c \<and> c \<le> 90 then c + 32 else c),
      json_loads = (\<lambda>s.
        if s = ascii ''{}'' then Inr (PDict [])
        else if s = confident_answer then
          Inr (PDict [(ascii ''selected_index'', PInt 0), (ascii ''confidence'', PFloat float_0_9)])
        else if s = hesitant_todo_answer then
          Inr (PDict [(ascii ''task_type'', PStr (ascii ''todo'')),
                      (ascii ''confidence'', PFloat float_0_5)])
        else Inl (Raised JSONDecodeError (ascii ''Expecting value''))),
      obj_str = (\<lambda>v. ascii ''<object>''),
      strptime_ymd = (\<lambda>s. True),
      float_of_str = (\<lambda>s. Inl (Raised ValueError (ascii ''could not convert string to float''))),
      sorted_mixed = (\<lambda>keyed. Inl (Raised TypeError (ascii ''not supported'')))\<rparr>"

definition ship_release :: pydict where
  "ship_release = [(k_id, PStr (ascii ''p1'')), (k_title, PStr (ascii ''Ship release'')),
                   (k_status, PStr (ascii ''open'')), (k_due_date, PStr (ascii ''2024-05-01''))]"

definition ship_docs :: pydict where
  "ship_docs = [(k_id, PStr (ascii ''p2'')), (k_title, PStr (ascii ''Ship docs'')),
                (k_status, PStr (ascii ''open'')), (k_due_date, PNone)]"

definition buy_milk :: pydict where
  "buy_milk = [(k_id, PStr (ascii ''p3'')), (k_title, PStr (ascii ''Buy milk'')),
               (k_status, PStr (ascii ''open'')), (k_due_date, PNone)]"

definition no_id_record :: pydict where
  "no_id_record = [(k_title, PStr (ascii ''Draft''))]"

definition second_call_fails :: "nat \<Rightarrow> pyval \<Rightarrow> bool" where
  "second_call_fails k page_id = (k \<noteq> 1)"

definition always_updates :: "pyval \<Rightarrow> pydict \<Rightarrow> bool" where
  "always_updates page_id props = True"

text \<open>
  Three oracles. The first answers the classification of \<open>buy milk\<close> with a to-do intent
  of confidence 0.5 and every other prompt with a greeting. The second raises on every
  prompt. The third raises on every prompt but \<open>hi\<close>, which it answers with a blank.
\<close>

definition no_handler :: "pystr \<Rightarrow> pydict \<Rightarrow> pystr \<Rightarrow> py_error + pystr" where
  "no_handler msg analysis user_id = Inl (Raised OtherException (ascii ''store unreachable''))"

definition hesitant_pipeline :: pipeline where
  "hesitant_pipeline =
     \<lparr>generate_content = (\<lambda>prompt.
        if prompt = ascii ''classify:'' @ [0xA] @ ascii ''buy milk''
        then Inr hesitant_todo_answer else Inr (ascii ''Hello!'')),
      formatted_prompt = ascii ''classify:'', has_scheduler = False,
      task_body = (\<lambda>task_type. no_handler), query_body = no_handler,
      delete_body = no_handler, update_body = no_handler\<rparr>"

definition unreachable_pipeline :: pipeline where
  "unreachable_pipeline =
     \<lparr>generate_content = (\<lambda>prompt. Inl (Raised OtherException (ascii ''unreachable''))),
      formatted_prompt = ascii ''classify:'', has_scheduler = True,
      task_body = (\<lambda>task_type. no_handler), query_body = no_handler,
      delete_body = no_handler, update_body = no_handler\<rparr>"

definition blank_pipeline :: pipeline where
  "blank_pipeline =
     \<lparr>generate_content = (\<lambda>prompt.
        if prompt = ascii ''hi'' then Inr (ascii '' '')
        else Inl (Raised OtherException (ascii ''unreachable''))),
      formatted_prompt = ascii ''classify:'', has_scheduler = False,
      task_body = (\<lambda>task_type. no_handler), query_body = no_handler,
      delete_body = no_handler, update_body = no_handler\<rparr>"

text \<open>
  Eleven to-do records whose status select is unset, with medium priority and due on the
  first eleven days of May 2024.
\<close>

definition open_item :: "nat \<Rightarrow> pydict" where
  "open_item n =
     [(k_id, PStr (ascii ''p'' @ two_digits n)), (k_title, PStr (ascii ''task '' @ two_digits n)),
      (k_status, PNone), (k_priority, PStr pr_medium),
      (k_due_date, PStr (ascii ''2024-05-'' @ two_digits n))]"

definition eleven_items :: "pydict list" where
  "eleven_items = map open_item [1, 2, 3, 4, 5, 6, 7, 8, 9, 10, 11]"

definition oracle_down :: "py_error + pystr" where
  "oracle_down = Inl (Raised OtherException (ascii ''unreachable''))"

text \<open>
  A store that holds one accounting record, an expense of 10 dated 2020-01-01, and no
  to-do record. The unfiltered query of the accounting database returns the record; a
  query with a filter does not. The clock reads Thursday, 2024-05-02.
\<close>

definition old_expense :: pydict where
  "old_expense =
     [(k_id, PStr (ascii ''p9'')), (k_title, PStr (ascii ''Rent'')), (k_amount, PInt 10),
      (k_type, PStr v_expense), (k_date, PStr (ascii ''2020-01-01''))]"

definition ledger_store :: store where
  "ledger_store database_name filter_condition sorts limit =
     (if database_name = db_accounting \<and> filter_condition = PNone then [old_expense] else [])"

definition may_2 :: report_clock where
  "may_2 = \<lparr>today = ascii ''2024-05-02'', yesterday = ascii ''2024-05-01'', weekday = 3,
            now_iso = ascii ''2024-05-02T08:00:00+00:00'',
            tomorrow_iso = ascii ''2024-05-03T08:00:00+00:00''\<rparr>"

section \<open>The number model on known values\<close>

lemma float_literals_ordered:
  "float_less float_0_5 float_0_6" "float_less float_0_6 float_0_7"
  "float_less float_0_7 float_0_8" "\<not> float_less float_0_6 float_0_6"
  by (simp_all add: float_0_5_def float_0_6_def float_0_7_def float_0_8_def dy_less_def)

lemma int_against_float:
  "py_lt_num (PInt 0) float_0_6 (ascii ''float'') = Inr True"
  "py_lt_num (PInt 1) float_0_6 (ascii ''float'') = Inr False"
  "py_lt_num (PBool False) float_0_6 (ascii ''float'') = Inr True"
  by (simp_all add: py_lt_num_def float_0_6_def dy_less_def)

lemma round_b64_ties_to_even:
  "round_b64 9007199254740993 0 = Fin 4503599627370496 1"
  "round_b64 9007199254740995 0 = Fin 4503599627370498 1"
  "round_b64 3 (- 1075) = Fin 2 (- 1074)"
  by (simp_all add: round_b64_def round_half_even_def bit_length.simps)

lemma format_2f_ties_to_even:
  "format_2f (Fin 1 (- 3)) = ascii ''0.12''"
  "format_2f (Fin 3 (- 3)) = ascii ''0.38''"
  "format_2f (Fin (- 5) 1) = ascii ''-10.00''"
  by (simp_all add: round_half_even_def two_digits_def str_of_nat.simps ascii_def)

section \<open>The dispatcher on an unknown task type\<close>

text \<open>
  C10. For a task type that is not in the registry, \<open>execute_task\<close> returns a failed
  result whose error names the unknown type, and the execution history is the one it was
  given. More generally the history changes only in a call whose task type is registered
  and whose handler was built: the entry is written after the handler is resolved.
\<close>

theorem execute_task_unknown_type:
  "(task_classes task_type = None \<longrightarrow>
      execute_task task_classes clk history task_type task_data user_id =
        (\<lparr>success = False, data = [], message = msg_unsupported_task_type,
          error = Some (err_unknown_task_type @ task_type)\<rparr>, history)) \<and>
   (snd (execute_task task_classes clk history task_type task_data user_id) \<noteq> history \<longrightarrow>
      (\<exists>task_class t. task_classes task_type = Some task_class \<and> task_class () = Inr t))"
  by (auto simp: execute_task_def execute_task_body_def create_task_def TaskResult_def
           split: option.splits sum.splits prod.splits)

theorem execute_task_unknown_type_witness:
  "example_classes (ascii ''weather'') = None \<and>
   execute_task example_classes example_clock Map.empty (ascii ''weather'') [] (ascii ''u1'') =
     (\<lparr>success = False, data = [], message = msg_unsupported_task_type,
       error = Some (err_unknown_task_type @ ascii ''weather'')\<rparr>, Map.empty) \<and>
   snd (execute_task example_classes example_clock Map.empty (ascii ''todo'') [] (ascii ''u1''))
     \<noteq> Map.empty \<and>
   (\<exists>task_class t. example_classes (ascii ''todo'') = Some task_class \<and> task_class () = Inr t)"
proof -
  have unknown: "example_classes (ascii ''weather'') = None"
    by (simp add: example_classes_def ascii_def)
  have "snd (execute_task example_classes example_clock Map.empty (ascii ''todo'') []
          (ascii ''u1'')) (ascii ''u1_todo_1714550400.0'') \<noteq> None"
    by (simp add: execute_task_def execute_task_body_def create_task_def example_classes_def
          record_task_start_def record_task_result_def Let_def example_clock_def ascii_def)
  then have changed:
    "snd (execute_task example_classes example_clock Map.empty (ascii ''todo'') []
       (ascii ''u1'')) \<noteq> Map.empty"
    by auto
  from unknown changed
    execute_task_unknown_type [of example_classes "ascii ''weather''" example_clock Map.empty
      "[]" "ascii ''u1''"]
    execute_task_unknown_type [of example_classes "ascii ''todo''" example_clock Map.empty
      "[]" "ascii ''u1''"]
  show ?thesis by blast
qed

section \<open>delete_all\<close>

lemma delete_loop_counts:
  "delete_loop delete_page todos k d f =
     (d + length (filter (\<lambda>(page_id, ok). ok) (archive_calls delete_page todos k)),
      f + length (filter (\<lambda>(page_id, ok). \<not> ok) (archive_calls delete_page todos k)),
      k + length (archive_calls delete_page todos k))"
  by (induction todos arbitrary: k d f) (simp_all add: Let_def)

lemma archive_calls_length:
  "length (archive_calls delete_page todos k) = length (filter has_id todos)"
  by (induction todos arbitrary: k) (simp_all add: Let_def has_id_def)

lemma filter_split_length:
  "length (filter (\<lambda>(p, ok). ok) xs) + length (filter (\<lambda>(p, ok). \<not> ok) xs) = length xs"
  by (induction xs) auto

lemma delete_all_success: "success (delete_all all_todos delete_page)"
  by (simp add: delete_all_def TaskResult_def Let_def split: prod.splits)

lemma delete_all_one_failure:
  assumes "failed_archive_calls delete_page all_todos = 1"
  shows "data (delete_all all_todos delete_page) =
           [(k_deleted_count, PInt (int (length (filter has_id all_todos)) - 1)),
            (k_failed_count, PInt 1)]"
proof -
  let ?calls = "archive_calls delete_page all_todos 0"
  from assms have failed: "length (filter (\<lambda>(p, ok). \<not> ok) ?calls) = 1"
    by (simp add: failed_archive_calls_def)
  then have nonempty: "all_todos \<noteq> []"
    by (cases all_todos) simp_all
  from failed filter_split_length [of ?calls] archive_calls_length [of delete_page all_todos 0]
  have ok: "int (length (filter (\<lambda>(p, ok). ok) ?calls)) =
              int (length (filter has_id all_todos)) - 1"
    by simp
  show ?thesis
    using nonempty failed ok
    by (simp add: delete_all_def delete_loop_counts TaskResult_def)
qed

text \<open>
  C6, as amended. On the empty collection \<open>delete_all\<close> succeeds with
  \<open>deleted_count = 0\<close>. It reports success whatever the archive calls do. When exactly
  one archive call fails it returns \<open>failed_count = 1\<close> and \<open>deleted_count = M - 1\<close>, where
  \<open>M\<close> counts the records that carry an id; \<open>M\<close> is the number \<open>N\<close> of records when every
  record carries one.
\<close>

theorem delete_all_partial_failure:
  "delete_all [] delete_page =
     \<lparr>success = True, data = [(k_deleted_count, PInt 0)], message = msg_nothing_to_delete,
      error = None\<rparr> \<and>
   success (delete_all all_todos delete_page) \<and>
   (failed_archive_calls delete_page all_todos = 1 \<longrightarrow>
      data (delete_all all_todos delete_page) =
        [(k_deleted_count, PInt (int (length (filter has_id all_todos)) - 1)),
         (k_failed_count, PInt 1)]) \<and>
   (failed_archive_calls delete_page all_todos = 1 \<and> (\<forall>todo \<in> set all_todos. has_id todo) \<longrightarrow>
      data (delete_all all_todos delete_page) =
        [(k_deleted_count, PInt (int (length all_todos) - 1)), (k_failed_count, PInt 1)])"
proof -
  have "(\<forall>todo \<in> set all_todos. has_id todo) \<Longrightarrow> filter has_id all_todos = all_todos"
    by (simp add: filter_id_conv)
  then show ?thesis
    using delete_all_one_failure [of delete_page all_todos]
      delete_all_success [of all_todos delete_page]
    by (auto simp: delete_all_def TaskResult_def)
qed

theorem delete_all_partial_failure_witness:
  "failed_archive_calls second_call_fails [ship_release, ship_docs, buy_milk] = 1 \<and>
   has_id ship_release \<and> has_id ship_docs \<and> has_id buy_milk \<and>
   success (delete_all [ship_release, ship_docs, buy_milk] second_call_fails) \<and>
   data (delete_all [ship_release, ship_docs, buy_milk] second_call_fails) =
     [(k_deleted_count, PInt 2), (k_failed_count, PInt 1)]"
proof -
  have ids: "\<forall>todo \<in> set [ship_release, ship_docs, buy_milk]. has_id todo"
    by (simp add: has_id_def dict_get_def ship_release_def ship_docs_def buy_milk_def
          k_id_def k_title_def ascii_def)
  have one: "failed_archive_calls second_call_fails [ship_release, ship_docs, buy_milk] = 1"
    by (simp add: failed_archive_calls_def second_call_fails_def Let_def dict_get_def
          ship_release_def ship_docs_def buy_milk_def k_id_def k_title_def ascii_def)
  from ids one
    delete_all_partial_failure [of second_call_fails "[ship_release, ship_docs, buy_milk]"]
  show ?thesis by simp
qed

text \<open>
  The claim as stated counts every record: with two records, one of them without an id,
  and the single archive call failing, \<open>deleted_count\<close> is 0 and not \<open>N - 1 = 1\<close>.
\<close>

theorem delete_all_skips_records_without_id:
  "failed_archive_calls (\<lambda>k page_id. False) [no_id_record, ship_docs] = 1 \<and>
   int (length [no_id_record, ship_docs]) - 1 = 1 \<and>
   data (delete_all [no_id_record, ship_docs] (\<lambda>k page_id. False)) =
     [(k_deleted_count, PInt 0), (k_failed_count, PInt 1)]"
  by (simp add: failed_archive_calls_def delete_all_def TaskResult_def Let_def dict_get_def
        no_id_record_def ship_docs_def k_id_def k_title_def ascii_def)

section \<open>update_by_name\<close>

lemma py_in_sublist: "py_in needle hay = sublist needle hay"
  by (induction hay) (simp_all add: sublist_Cons_right)

lemma find_matches_filter:
  "\<forall>todo \<in> set all_todos. title_text todo \<noteq> None \<Longrightarrow>
     find_matches B task_name all_todos = Inr (filter (is_candidate B task_name) all_todos)"
proof (induction all_todos)
  case Nil
  show ?case by simp
next
  case (Cons todo rest)
  from Cons.prems obtain s where s: "dict_get todo k_title (PStr []) = PStr s"
    by (auto split: pyval.splits)
  from Cons have rest: "find_matches B task_name rest = Inr (filter (is_candidate B task_name) rest)"
    by simp
  have head: "is_candidate B task_name todo =
      (sublist (str_lower B task_name) (str_lower B s) \<or>
       sublist (str_lower B s) (str_lower B task_name))"
    by (simp add: is_candidate_def s)
  show ?case
    by (simp add: s rest head py_in_sublist)
qed

lemma select_best_match_none:
  "select_best_match_with_ai B oracle_out task_name matched_tasks new_status new_priority
     new_date = (None, [])"
  by (simp add: select_best_match_with_ai_def select_best_match_body_def load_local_def
        locals_at_entry_def)

lemma update_by_name_ambiguous:
  assumes "find_matches B task_name all_todos = Inr matched_tasks"
    and "2 \<le> length matched_tasks"
  shows "update_by_name B all_todos oracle_out update_page task_name new_status new_priority
           new_date = (ambiguous_target B task_name matched_tasks, [])"
proof -
  from assms(2) obtain a b rest where m: "matched_tasks = a # b # rest"
    by (cases matched_tasks; cases "tl matched_tasks") auto
  from assms(1) m have "all_todos \<noteq> []"
    by auto
  then show ?thesis
    using assms(1) m
    by (simp add: update_by_name_def update_by_name_body_def select_best_match_none)
qed

lemma apply_update_no_oracle:
  "GenerateContent \<notin> set (snd (apply_update B update_page best_match task_name new_status
     new_priority new_date))"
  by (simp add: apply_update_def Let_def)

lemma sublist_in_append: "sublist x ys \<Longrightarrow> sublist x (ps @ ys @ ss)"
  using sublist_appendI [of ys ps ss] sublist_order.order_trans by blast

lemma sublist_py_join: "x \<in> set xs \<Longrightarrow> sublist x (py_join sep xs)"
proof (induction sep xs rule: py_join.induct)
  case (1 sep)
  then show ?case by simp
next
  case (2 sep p)
  then show ?case by simp
next
  case (3 sep p q ps)
  show ?case
  proof (cases "x = p")
    case True
    then show ?thesis by (simp add: sublist_append_rightI)
  next
    case False
    with 3 have "sublist x (py_join sep (q # ps))" by simp
    then have "sublist x ((p @ sep) @ py_join sep (q # ps) @ [])"
      by (rule sublist_in_append)
    then show ?thesis by simp
  qed
qed

lemma candidate_line_title:
  "sublist (py_str B (dict_get task k_title (PStr []))) (candidate_line B (i, task))"
proof -
  have "candidate_line B (i, task) =
          (str_of_nat i @ ascii ''. '') @ py_str B (dict_get task k_title (PStr [])) @
          (ascii '' ('' @ py_str B (dict_get task k_status (PStr [])) @ line_due @
           py_str B (dict_get task k_due_date (PStr [])) @ ascii '')'')"
    by (simp add: candidate_line_def)
  then show ?thesis
    by (metis sublist_appendI)
qed

lemma ambiguous_target_lists_all:
  assumes "task \<in> set matched_tasks"
  shows "sublist (py_str B (dict_get task k_title (PStr [])))
           (message (ambiguous_target B task_name matched_tasks))"
proof -
  from assms obtain j where j: "j < length matched_tasks" "matched_tasks ! j = task"
    by (auto simp: in_set_conv_nth)
  define i where "i = Suc j"
  from j have "(i, task) \<in> set (enumerate 1 matched_tasks)"
    by (simp add: in_set_enumerate_eq i_def)
  then have "candidate_line B (i, task) \<in> set (map (candidate_line B) (enumerate 1 matched_tasks))"
    by (metis image_eqI image_set)
  then have "sublist (candidate_line B (i, task))
               (py_join [0xA] (map (candidate_line B) (enumerate 1 matched_tasks)))"
    by (rule sublist_py_join)
  with candidate_line_title [of B task i]
  have "sublist (py_str B (dict_get task k_title (PStr [])))
          (py_join [0xA] (map (candidate_line B) (enumerate 1 matched_tasks)))"
    by (rule sublist_order.order_trans)
  then have "sublist (py_str B (dict_get task k_title (PStr [])))
          ((msg_multiple_pre @ task_name @ msg_multiple_post) @
           py_join [0xA] (map (candidate_line B) (enumerate 1 matched_tasks)) @ [])"
    by (rule sublist_in_append)
  then show ?thesis
    by (simp add: ambiguous_target_def TaskResult_def)
qed

lemmas example_defs =
  example_builtins_def ship_release_def ship_docs_def buy_milk_def no_id_record_def
  always_updates_def confident_answer_def hesitant_todo_answer_def dquote_def ascii_def
  dict_get_def k_id_def k_title_def k_status_def k_due_date_def

text \<open>
  C2. When every record's title is a string, the candidates \<open>update_by_name\<close> computes are
  exactly the records whose lowered title contains the lowered name or is contained in it,
  in the order of the collection. With no candidate the result is a not-found failure
  (one text for an empty collection, one for a collection without a match) and no call is
  made. With exactly one candidate the result is that of updating this record, and the
  oracle is not called.
\<close>

theorem update_by_name_resolution:
  "(\<forall>todo \<in> set all_todos. title_text todo \<noteq> None) \<longrightarrow>
     find_matches B task_name all_todos = Inr (filter (is_candidate B task_name) all_todos) \<and>
     (filter (is_candidate B task_name) all_todos = [] \<longrightarrow>
        update_by_name B all_todos oracle_out update_page task_name new_status new_priority
          new_date =
        (if all_todos = []
         then TaskResult False [] msg_todo_list_empty (Some err_no_tasks)
         else TaskResult False [] (msg_not_found_pre @ task_name @ msg_not_found_post)
                (Some err_task_not_found), [])) \<and>
     (\<forall>only. filter (is_candidate B task_name) all_todos = [only] \<longrightarrow>
        update_by_name B all_todos oracle_out update_page task_name new_status new_priority
          new_date =
        apply_update B update_page only task_name new_status new_priority new_date \<and>
        GenerateContent \<notin> set (snd (update_by_name B all_todos oracle_out update_page task_name
          new_status new_priority new_date)))"
proof (intro impI conjI allI)
  assume titles: "\<forall>todo \<in> set all_todos. title_text todo \<noteq> None"
  then show fm: "find_matches B task_name all_todos =
      Inr (filter (is_candidate B task_name) all_todos)"
    by (rule find_matches_filter)
  {
    assume "filter (is_candidate B task_name) all_todos = []"
    with fm show "update_by_name B all_todos oracle_out update_page task_name new_status
        new_priority new_date =
      (if all_todos = []
       then TaskResult False [] msg_todo_list_empty (Some err_no_tasks)
       else TaskResult False [] (msg_not_found_pre @ task_name @ msg_not_found_post)
              (Some err_task_not_found), [])"
      by (simp add: update_by_name_def update_by_name_body_def)
  }
  {
    fix only
    assume one: "filter (is_candidate B task_name) all_todos = [only]"
    then have "all_todos \<noteq> []" by auto
    with fm one show eq: "update_by_name B all_todos oracle_out update_page task_name
        new_status new_priority new_date =
      apply_update B update_page only task_name new_status new_priority new_date"
      by (simp add: update_by_name_def update_by_name_body_def)
    show "GenerateContent \<notin> set (snd (update_by_name B all_todos oracle_out update_page
        task_name new_status new_priority new_date))"
      unfolding eq by (rule apply_update_no_oracle)
  }
qed

theorem update_by_name_resolution_witness:
  "title_text ship_release = Some (ascii ''Ship release'') \<and>
   title_text buy_milk = Some (ascii ''Buy milk'') \<and>
   filter (is_candidate example_builtins (ascii ''ship'')) [ship_release, buy_milk] =
     [ship_release] \<and>
   update_by_name example_builtins [ship_release, buy_milk] (Inr confident_answer)
       always_updates (ascii ''ship'') (ascii ''done'') [] [] =
     apply_update example_builtins always_updates ship_release (ascii ''ship'')
       (ascii ''done'') [] [] \<and>
   snd (update_by_name example_builtins [ship_release, buy_milk] (Inr confident_answer)
       always_updates (ascii ''ship'') (ascii ''done'') [] []) =
     [UpdatePage (PStr (ascii ''p1''))
        [(k_status, PDict [(ascii ''select'', PDict [(ascii ''name'', PStr (ascii ''done''))])])]] \<and>
   filter (is_candidate example_builtins (ascii ''plan'')) [ship_release, buy_milk] = [] \<and>
   update_by_name example_builtins [ship_release, buy_milk] (Inr confident_answer)
       always_updates (ascii ''plan'') (ascii ''done'') [] [] =
     (TaskResult False [] (msg_not_found_pre @ ascii ''plan'' @ msg_not_found_post)
        (Some err_task_not_found), [])"
proof -
  have titles: "\<forall>todo \<in> set [ship_release, buy_milk]. title_text todo \<noteq> None"
    by (simp add: example_defs)
  have ship: "find_matches example_builtins (ascii ''ship'') [ship_release, buy_milk] =
      Inr [ship_release]"
    by (simp add: example_defs)
  have plan: "find_matches example_builtins (ascii ''plan'') [ship_release, buy_milk] = Inr []"
    by (simp add: example_defs)
  note ship_thm = update_by_name_resolution [of "[ship_release, buy_milk]" example_builtins
      "ascii ''ship''" "Inr confident_answer" always_updates "ascii ''done''" "[]" "[]"]
  note plan_thm = update_by_name_resolution [of "[ship_release, buy_milk]" example_builtins
      "ascii ''plan''" "Inr confident_answer" always_updates "ascii ''done''" "[]" "[]"]
  from titles ship ship_thm
  have c1: "filter (is_candidate example_builtins (ascii ''ship'')) [ship_release, buy_milk] =
      [ship_release]"
    by simp
  from titles plan plan_thm
  have c0: "filter (is_candidate example_builtins (ascii ''plan'')) [ship_release, buy_milk] = []"
    by simp
  from titles c1 ship_thm
  have u1: "update_by_name example_builtins [ship_release, buy_milk] (Inr confident_answer)
       always_updates (ascii ''ship'') (ascii ''done'') [] [] =
     apply_update example_builtins always_updates ship_release (ascii ''ship'')
       (ascii ''done'') [] []"
    by blast
  have calls: "snd (apply_update example_builtins always_updates ship_release (ascii ''ship'')
       (ascii ''done'') [] []) =
     [UpdatePage (PStr (ascii ''p1''))
        [(k_status, PDict [(ascii ''select'', PDict [(ascii ''name'', PStr (ascii ''done''))])])]]"
    by (simp add: apply_update_def build_update_data_def Let_def example_defs)
  from titles c0 plan_thm
  have u0: "update_by_name example_builtins [ship_release, buy_milk] (Inr confident_answer)
       always_updates (ascii ''plan'') (ascii ''done'') [] [] =
     (TaskResult False [] (msg_not_found_pre @ ascii ''plan'' @ msg_not_found_post)
        (Some err_task_not_found), [])"
    by simp
  have "title_text ship_release = Some (ascii ''Ship release'')"
    and "title_text buy_milk = Some (ascii ''Buy milk'')"
    by (simp_all add: example_defs)
  with c1 u1 calls c0 u0 show ?thesis
    by simp
qed

lemma tie_break_decision_accepts:
  assumes "tie_break_decision matched_tasks result = Inr (Some chosen)"
  shows "\<exists>d i. result = PDict d \<and>
           py_ge_num (reported_confidence d) float_0_7 (ascii ''float'') = Inr True \<and>
           as_number (reported_index d) = Some (Fin (int i) 0) \<and>
           i < length matched_tasks \<and> chosen = matched_tasks ! i"
proof -
  from assms obtain d where d: "result = PDict d"
    by (cases result) (simp_all add: tie_break_decision_def)
  let ?idx = "reported_index d"
  let ?conf = "reported_confidence d"
  from assms d have ge0: "py_ge_num ?idx (Fin 0 0) (ascii ''int'') = Inr True"
    by (auto simp: tie_break_decision_def reported_index_def split: sum.splits bool.splits)
  from assms d have lt: "py_lt_num ?idx (Fin (int (length matched_tasks)) 0) (ascii ''int'') =
      Inr True"
    by (auto simp: tie_break_decision_def reported_index_def split: sum.splits bool.splits)
  from assms d have conf: "py_ge_num ?conf float_0_7 (ascii ''float'') = Inr True"
    by (auto simp: tie_break_decision_def reported_index_def reported_confidence_def
          split: sum.splits bool.splits)
  from assms d have pick: "py_list_index matched_tasks ?idx = Inr chosen"
    by (auto simp: tie_break_decision_def reported_index_def split: sum.splits bool.splits)
  have "\<exists>i. as_number ?idx = Some (Fin (int i) 0) \<and> i < length matched_tasks \<and>
          chosen = matched_tasks ! i"
  proof (cases ?idx)
    case (PInt n)
    with ge0 lt pick show ?thesis
      by (intro exI [of _ "nat n"])
         (auto simp: py_ge_num_def py_lt_num_def dy_less_def)
  next
    case (PBool b)
    with ge0 lt pick show ?thesis
      by (intro exI [of _ "if b then 1 else 0"])
         (auto simp: py_ge_num_def py_lt_num_def dy_less_def)
  qed (use pick in simp_all)
  with d conf show ?thesis by blast
qed

text \<open>
  C1. When two or more records match and the oracle's answer reports a confidence below
  0.7 or an index outside the candidate list, \<open>update_by_name\<close> returns the failed result
  that lists the candidates, every candidate's title is in its message, and no call is
  made: neither a store write nor, as it turns out, the oracle call. The test of
  todo.py:550 accepts a choice only with a confidence of at least 0.7 and an index inside
  the candidate list.
\<close>

theorem tie_break_below_floor:
  "(find_matches B task_name all_todos = Inr matched_tasks \<and> 2 \<le> length matched_tasks \<and>
    oracle_report B oracle_out = Some d \<and>
    (low_confidence d \<or> index_out_of_range matched_tasks d) \<longrightarrow>
      update_by_name B all_todos oracle_out update_page task_name new_status new_priority
        new_date = (ambiguous_target B task_name matched_tasks, []) \<and>
      \<not> success (ambiguous_target B task_name matched_tasks) \<and>
      error (ambiguous_target B task_name matched_tasks) = Some err_multiple_matches \<and>
      (\<forall>task \<in> set matched_tasks.
         sublist (py_str B (dict_get task k_title (PStr [])))
           (message (ambiguous_target B task_name matched_tasks)))) \<and>
   (tie_break_decision matched_tasks result = Inr (Some chosen) \<longrightarrow>
      (\<exists>d' i. result = PDict d' \<and>
         py_ge_num (reported_confidence d') float_0_7 (ascii ''float'') = Inr True \<and>
         as_number (reported_index d') = Some (Fin (int i) 0) \<and>
         i < length matched_tasks \<and> chosen = matched_tasks ! i))"
  using update_by_name_ambiguous [of B task_name all_todos matched_tasks oracle_out update_page
      new_status new_priority new_date]
    ambiguous_target_lists_all [of _ matched_tasks B task_name]
    tie_break_decision_accepts [of matched_tasks result chosen]
  by (auto simp: ambiguous_target_def TaskResult_def)

theorem tie_break_below_floor_witness:
  "find_matches example_builtins (ascii ''ship'') [ship_release, ship_docs, buy_milk] =
     Inr [ship_release, ship_docs] \<and>
   2 \<le> length [ship_release, ship_docs] \<and>
   oracle_report example_builtins (Inr (ascii ''{}'')) = Some [] \<and>
   low_confidence [] \<and>
   update_by_name example_builtins [ship_release, ship_docs, buy_milk] (Inr (ascii ''{}''))
       always_updates (ascii ''ship'') (ascii ''done'') [] [] =
     (ambiguous_target example_builtins (ascii ''ship'') [ship_release, ship_docs], []) \<and>
   message (ambiguous_target example_builtins (ascii ''ship'') [ship_release, ship_docs]) =
     msg_multiple_pre @ ascii ''ship'' @ msg_multiple_post @
     ascii ''1. Ship release (open'' @ line_due @ ascii ''2024-05-01)'' @ [0xA] @
     ascii ''2. Ship docs (open'' @ line_due @ ascii ''None)'' \<and>
   tie_break_decision [ship_release, ship_docs]
       (PDict [(ascii ''selected_index'', PInt 1), (ascii ''confidence'', PFloat float_0_9)]) =
     Inr (Some ship_docs) \<and>
   (\<exists>d' i. PDict [(ascii ''selected_index'', PInt 1), (ascii ''confidence'', PFloat float_0_9)] =
       PDict d' \<and>
      py_ge_num (reported_confidence d') float_0_7 (ascii ''float'') = Inr True \<and>
      as_number (reported_index d') = Some (Fin (int i) 0) \<and>
      i < length [ship_release, ship_docs] \<and> ship_docs = [ship_release, ship_docs] ! i)"
proof -
  have fm: "find_matches example_builtins (ascii ''ship'') [ship_release, ship_docs, buy_milk] =
      Inr [ship_release, ship_docs]"
    by (simp add: example_defs)
  have report: "oracle_report example_builtins (Inr (ascii ''{}'')) = Some []"
    by (simp add: oracle_report_def py_strip_def is_space_def py_rfind_def py_slice_def Let_def
          example_defs)
  have low: "low_confidence []"
    by (simp add: low_confidence_def reported_confidence_def py_ge_num_def float_0_7_def
          dy_less_def example_defs)
  have msg: "message (ambiguous_target example_builtins (ascii ''ship'')
        [ship_release, ship_docs]) =
     msg_multiple_pre @ ascii ''ship'' @ msg_multiple_post @
     ascii ''1. Ship release (open'' @ line_due @ ascii ''2024-05-01)'' @ [0xA] @
     ascii ''2. Ship docs (open'' @ line_due @ ascii ''None)''"
    by (simp add: ambiguous_target_def TaskResult_def candidate_line_def enumerate_eq_zip
          str_of_nat.simps example_defs)
  have accept: "tie_break_decision [ship_release, ship_docs]
       (PDict [(ascii ''selected_index'', PInt 1), (ascii ''confidence'', PFloat float_0_9)]) =
     Inr (Some ship_docs)"
    by (simp add: tie_break_decision_def py_ge_num_def py_lt_num_def dy_less_def float_0_7_def
          float_0_9_def example_defs)
  from fm report low accept msg
    tie_break_below_floor [of example_builtins "ascii ''ship''"
      "[ship_release, ship_docs, buy_milk]" "[ship_release, ship_docs]" "Inr (ascii ''{}'')" "[]"
      always_updates "ascii ''done''" "[]" "[]"
      "PDict [(ascii ''selected_index'', PInt 1), (ascii ''confidence'', PFloat float_0_9)]"
      ship_docs]
  show ?thesis by simp
qed

text \<open>
  C9. The tie-break helper returns \<open>None\<close> whatever the oracle would answer, and makes no
  call: its body raises \<open>UnboundLocalError\<close> when the prompt reads the local \<open>json\<close>, which
  the import further down has not bound yet. With two or more candidates \<open>update_by_name\<close>
  therefore always returns the failed result that lists them.
\<close>

theorem tie_break_unreachable:
  "select_best_match_with_ai B oracle_out task_name matched_tasks new_status new_priority
     new_date = (None, []) \<and>
   (\<exists>msg. fst (select_best_match_body B oracle_out task_name matched_tasks new_status
      new_priority new_date) = Inl (Raised UnboundLocalError msg)) \<and>
   (find_matches B task_name all_todos = Inr matched_tasks \<and> 2 \<le> length matched_tasks \<longrightarrow>
      update_by_name B all_todos oracle_out update_page task_name new_status new_priority
        new_date = (ambiguous_target B task_name matched_tasks, []))"
  using update_by_name_ambiguous [of B task_name all_todos matched_tasks oracle_out update_page
      new_status new_priority new_date]
  by (simp add: select_best_match_none select_best_match_body_def load_local_def
        locals_at_entry_def)

theorem tie_break_unreachable_witness:
  "find_matches example_builtins (ascii ''ship'') [ship_release, ship_docs, buy_milk] =
     Inr [ship_release, ship_docs] \<and>
   2 \<le> length [ship_release, ship_docs] \<and>
   tie_break_tail example_builtins locals_after_imports (Inr confident_answer)
     [ship_release, ship_docs] = Inr (Some ship_release) \<and>
   select_best_match_with_ai example_builtins (Inr confident_answer) (ascii ''ship'')
     [ship_release, ship_docs] (ascii ''done'') [] [] = (None, []) \<and>
   update_by_name example_builtins [ship_release, ship_docs, buy_milk] (Inr confident_answer)
       always_updates (ascii ''ship'') (ascii ''done'') [] [] =
     (ambiguous_target example_builtins (ascii ''ship'') [ship_release, ship_docs], [])"
proof -
  have fm: "find_matches example_builtins (ascii ''ship'') [ship_release, ship_docs, buy_milk] =
      Inr [ship_release, ship_docs]"
    by (simp add: example_defs)
  have tail: "tie_break_tail example_builtins locals_after_imports (Inr confident_answer)
      [ship_release, ship_docs] = Inr (Some ship_release)"
    by (simp add: tie_break_tail_def tie_break_decision_def py_strip_def is_space_def
          py_rfind_def py_slice_def Let_def load_local_def locals_after_imports_def
          locals_at_entry_def py_ge_num_def py_lt_num_def dy_less_def float_0_7_def
          float_0_9_def example_defs)
  from fm tail
    tie_break_unreachable [of example_builtins "Inr confident_answer" "ascii ''ship''"
      "[ship_release, ship_docs]" "ascii ''done''" "[]" "[]" "[ship_release, ship_docs, buy_milk]"
      always_updates]
  show ?thesis by simp
qed

section \<open>The intent pipeline\<close>

lemma try_except_returns: "\<exists>v. try_except body (\<lambda>e. Inr (h e)) = Inr v"
  by (cases body) (simp_all add: try_except_def)

lemma chat_returns: "\<exists>r. chat P msg context = Inr r"
  unfolding chat_def by (rule try_except_returns)

lemma handle_chat_returns: "\<exists>r. handle_chat P msg context = Inr r"
  unfolding handle_chat_def by (rule try_except_returns)

lemma run_route_returns: "\<exists>r. run_route P msg context analysis user_id route = Inr r"
  by (cases route)
     (simp_all add: handle_chat_returns handle_task_def handle_query_def handle_delete_def
        handle_update_def try_except_returns)

lemma process_message_returns: "\<exists>reply. fst (process_message P B cs msg user_id) = Inr reply"
proof (cases "process_message_body P B cs msg user_id")
  case (Pair raised_or_reply cs')
  then show ?thesis
    by (simp add: process_message_def try_except_returns)
qed

lemma analyze_task_returns: "\<exists>d. analyze_task B oracle_out = Inr d"
  unfolding analyze_task_def by (rule try_except_returns)

lemmas pipeline_example_defs =
  hesitant_pipeline_def unreachable_pipeline_def blank_pipeline_def no_handler_def
  k_task_type_def k_confidence_def k_extracted_data_def k_response_text_def

lemmas island_defs = py_strip_def is_space_def py_rfind_def py_slice_def

text \<open>
  C3. A confidence that compares below 0.6 selects the chat route whatever the task type
  is, and \<open>process_message\<close> then returns what \<open>_handle_chat\<close> returns for the message and
  the context read before the update. The comparison is Python's, on the number the
  analysis carries (a \<open>bool\<close>, an \<open>int\<close> or a \<open>float\<close>).
\<close>

theorem low_confidence_routes_to_chat:
  "(py_lt_num confidence float_0_6 (ascii ''float'') = Inr True \<longrightarrow>
      choose_route task_type confidence = Inr RChat) \<and>
   (classify P B msg = Inr analysis \<and>
    py_lt_num (dict_get analysis k_confidence (PFloat (Fin 0 0))) float_0_6 (ascii ''float'') =
      Inr True \<longrightarrow>
      fst (process_message P B cs msg user_id) =
        handle_chat P msg (get_conversation_context cs user_id))"
proof (intro conjI impI)
  assume "py_lt_num confidence float_0_6 (ascii ''float'') = Inr True"
  then show "choose_route task_type confidence = Inr RChat"
    by (simp add: choose_route_def)
next
  assume a: "classify P B msg = Inr analysis \<and>
    py_lt_num (dict_get analysis k_confidence (PFloat (Fin 0 0))) float_0_6 (ascii ''float'') =
      Inr True"
  then have route: "choose_route (dict_get analysis k_task_type (PStr (ascii ''chat'')))
      (dict_get analysis k_confidence (PFloat (Fin 0 0))) = Inr RChat"
    by (simp add: choose_route_def)
  obtain r where r: "handle_chat P msg (get_conversation_context cs user_id) = Inr r"
    using handle_chat_returns by blast
  from a route r show "fst (process_message P B cs msg user_id) =
      handle_chat P msg (get_conversation_context cs user_id)"
    by (simp add: process_message_def process_message_body_def Let_def try_except_def)
qed

theorem low_confidence_routes_to_chat_witness:
  "classify hesitant_pipeline example_builtins (ascii ''buy milk'') =
     Inr [(k_task_type, PStr (ascii ''todo'')), (k_confidence, PFloat float_0_5)] \<and>
   py_lt_num (PFloat float_0_5) float_0_6 (ascii ''float'') = Inr True \<and>
   choose_route (PStr (ascii ''todo'')) (PFloat float_0_5) = Inr RChat \<and>
   fst (process_message hesitant_pipeline example_builtins Map.empty (ascii ''buy milk'')
          (ascii ''u1'')) = Inr (ascii ''Hello!'')"
proof -
  have cl: "classify hesitant_pipeline example_builtins (ascii ''buy milk'') =
      Inr [(k_task_type, PStr (ascii ''todo'')), (k_confidence, PFloat float_0_5)]"
    by (simp add: classify_def analyze_task_def analyze_task_body_def try_except_def Let_def
          island_defs pipeline_example_defs example_defs)
  have lt: "py_lt_num (PFloat float_0_5) float_0_6 (ascii ''float'') = Inr True"
    by (simp add: py_lt_num_def float_0_5_def float_0_6_def dy_less_def)
  have conf: "dict_get [(k_task_type, PStr (ascii ''todo'')), (k_confidence, PFloat float_0_5)]
      k_confidence (PFloat (Fin 0 0)) = PFloat float_0_5"
    by (simp add: dict_get_def k_task_type_def k_confidence_def ascii_def)
  have hc: "handle_chat hesitant_pipeline (ascii ''buy milk'')
      (get_conversation_context Map.empty (ascii ''u1'')) = Inr (ascii ''Hello!'')"
    by (simp add: handle_chat_def chat_def chat_prompt_def try_except_def
          get_conversation_context_def island_defs pipeline_example_defs ascii_def)
  from cl lt conf hc
    low_confidence_routes_to_chat [of "PFloat float_0_5" "PStr (ascii ''todo'')"
      hesitant_pipeline example_builtins "ascii ''buy milk''"
      "[(k_task_type, PStr (ascii ''todo'')), (k_confidence, PFloat float_0_5)]"
      Map.empty "ascii ''u1''"]
  show ?thesis by simp
qed

lemma process_message_oracle_down:
  assumes down: "\<forall>prompt. \<exists>e. generate_content P prompt = Inl e"
  shows "\<exists>reply. fst (process_message P B cs msg user_id) = Inr reply \<and>
           reply \<in> {msg_cannot_process, msg_use_subscribe, msg_use_unsubscribe,
                     msg_use_daily_report}"
proof -
  from down obtain e where "generate_content P (formatted_prompt P @ [0xA] @ msg) = Inl e"
    by blast
  then have cl: "classify P B msg = Inr fallback_failed"
    by (simp add: classify_def analyze_task_def analyze_task_body_def try_except_def)
  have route: "choose_route (dict_get fallback_failed k_task_type (PStr (ascii ''chat'')))
      (dict_get fallback_failed k_confidence (PFloat (Fin 0 0))) = Inr RChat"
    by (simp add: choose_route_def fallback_failed_def dict_get_def)
  let ?ctx = "get_conversation_context cs user_id"
  from down obtain e' where "generate_content P (chat_prompt msg ?ctx) = Inl e'"
    by blast
  then have "chat P msg ?ctx = Inr msg_cannot_process"
    by (simp add: chat_def try_except_def)
  then have "\<exists>reply. handle_chat P msg ?ctx = Inr reply \<and>
      reply \<in> {msg_cannot_process, msg_use_subscribe, msg_use_unsubscribe,
                msg_use_daily_report}"
    by (simp add: handle_chat_def try_except_def)
  with cl route show ?thesis
    by (auto simp: process_message_def process_message_body_def Let_def try_except_def)
qed

text \<open>
  C4, as amended. \<open>process_message\<close> returns a reply and never raises, whatever the
  oracle and the handlers do. When every oracle call fails the reply is one of four
  literals of the sources, each of them non-empty.
\<close>

theorem process_message_absorbs_failures:
  "(\<exists>reply. fst (process_message P B cs msg user_id) = Inr reply) \<and>
   ((\<forall>prompt. \<exists>e. generate_content P prompt = Inl e) \<longrightarrow>
      (\<exists>reply. fst (process_message P B cs msg user_id) = Inr reply \<and> reply \<noteq> [] \<and>
         reply \<in> {msg_cannot_process, msg_use_subscribe, msg_use_unsubscribe,
                   msg_use_daily_report}))"
proof (intro conjI impI)
  show "\<exists>reply. fst (process_message P B cs msg user_id) = Inr reply"
    by (rule process_message_returns)
next
  assume "\<forall>prompt. \<exists>e. generate_content P prompt = Inl e"
  then obtain reply where r: "fst (process_message P B cs msg user_id) = Inr reply"
    "reply \<in> {msg_cannot_process, msg_use_subscribe, msg_use_unsubscribe,
               msg_use_daily_report}"
    using process_message_oracle_down by blast
  from r(2) have "reply \<noteq> []"
    by (auto simp: msg_cannot_process_def msg_use_subscribe_def msg_use_unsubscribe_def
          msg_use_daily_report_def)
  with r show "\<exists>reply. fst (process_message P B cs msg user_id) = Inr reply \<and> reply \<noteq> [] \<and>
      reply \<in> {msg_cannot_process, msg_use_subscribe, msg_use_unsubscribe,
                msg_use_daily_report}"
    by blast
qed

theorem process_message_absorbs_failures_witness:
  "generate_content unreachable_pipeline =
     (\<lambda>prompt. Inl (Raised OtherException (ascii ''unreachable''))) \<and>
   fst (process_message unreachable_pipeline example_builtins Map.empty (ascii ''buy milk'')
          (ascii ''u1'')) = Inr msg_cannot_process \<and>
   msg_cannot_process \<noteq> []"
proof -
  have gc: "generate_content unreachable_pipeline =
      (\<lambda>prompt. Inl (Raised OtherException (ascii ''unreachable'')))"
    by (simp add: unreachable_pipeline_def)
  then have down: "\<forall>prompt. \<exists>e. generate_content unreachable_pipeline prompt = Inl e"
    by simp
  have "fst (process_message unreachable_pipeline example_builtins Map.empty
      (ascii ''buy milk'') (ascii ''u1'')) = Inr msg_cannot_process"
    by (simp add: process_message_def process_message_body_def classify_def analyze_task_def
          analyze_task_body_def try_except_def Let_def choose_route_def fallback_failed_def
          handle_chat_def chat_def kw_daily_push_def get_conversation_context_def
          dict_get_def pipeline_example_defs ascii_def)
  with gc down
    process_message_absorbs_failures [of unreachable_pipeline example_builtins Map.empty
      "ascii ''buy milk''" "ascii ''u1''"]
  show ?thesis by auto
qed

text \<open>
  The reply can be empty when the oracle answers: a blank completion of the chat prompt is
  stripped to the empty string and returned.
\<close>

theorem process_message_empty_reply:
  "fst (process_message blank_pipeline example_builtins Map.empty (ascii ''hi'') (ascii ''u1''))
     = Inr []"
  by (simp add: process_message_def process_message_body_def classify_def analyze_task_def
        analyze_task_body_def try_except_def Let_def choose_route_def fallback_failed_def
        handle_chat_def chat_def chat_prompt_def get_conversation_context_def dict_get_def
        island_defs pipeline_example_defs ascii_def)

text \<open>
  C5, as amended. \<open>analyze_task\<close> always returns a dict and never raises. When the oracle
  call raises it returns the chat intent with confidence 0.5 and the literal of
  gemini_client.py:203 as response text. When no JSON object can be parsed from the
  answer it returns the chat intent with confidence 0.8 and, as response text, the
  oracle's answer stripped of surrounding white space.
\<close>

theorem analyze_task_fallback:
  "(\<exists>d. analyze_task B oracle_out = Inr d) \<and>
   (\<forall>e. oracle_out = Inl e \<longrightarrow> analyze_task B oracle_out = Inr fallback_failed) \<and>
   (\<forall>text. oracle_out = Inr text \<and> unparsable B text \<longrightarrow>
      analyze_task B oracle_out = Inr (fallback_unparsed (py_strip text))) \<and>
   dict_get fallback_failed k_task_type PNone = PStr (ascii ''chat'') \<and>
   dict_get fallback_failed k_confidence PNone = PFloat float_0_5 \<and>
   dict_get fallback_failed k_response_text PNone = PStr msg_understood \<and>
   dict_get (fallback_unparsed response_text) k_task_type PNone = PStr (ascii ''chat'') \<and>
   dict_get (fallback_unparsed response_text) k_confidence PNone = PFloat float_0_8 \<and>
   dict_get (fallback_unparsed response_text) k_response_text PNone = PStr response_text \<and>
   float_ge float_0_8 float_0_5"
proof -
  have "unparsable B answer \<Longrightarrow>
      analyze_task B (Inr answer) = Inr (fallback_unparsed (py_strip answer))" for answer
    by (auto simp: unparsable_def analyze_task_def analyze_task_body_def try_except_def Let_def
          split: sum.splits if_splits)
  then show ?thesis
    using analyze_task_returns [of B oracle_out]
    by (auto simp: analyze_task_def analyze_task_body_def try_except_def fallback_failed_def
          fallback_unparsed_def dict_get_def pipeline_example_defs ascii_def
          float_0_5_def float_0_8_def dy_less_def)
qed

theorem analyze_task_fallback_witness:
  "analyze_task example_builtins (Inl (Raised OtherException (ascii ''unreachable''))) =
     Inr fallback_failed \<and>
   unparsable example_builtins (ascii ''{oops}'') \<and>
   analyze_task example_builtins (Inr (ascii ''{oops}'')) =
     Inr (fallback_unparsed (ascii ''{oops}''))"
proof -
  have u: "unparsable example_builtins (ascii ''{oops}'')"
    by (simp add: unparsable_def Let_def island_defs example_defs)
  have s: "py_strip (ascii ''{oops}'') = ascii ''{oops}''"
    by (simp add: island_defs ascii_def)
  from u s
    analyze_task_fallback [of example_builtins
      "Inl (Raised OtherException (ascii ''unreachable''))"]
    analyze_task_fallback [of example_builtins "Inr (ascii ''{oops}'')"]
  show ?thesis by simp
qed

text \<open>
  On an answer without a JSON object the response text is the answer, not a literal of
  the sources.
\<close>

theorem analyze_task_echoes_answer:
  "unparsable example_builtins (ascii ''hello'') \<and>
   analyze_task example_builtins (Inr (ascii ''hello'')) =
     Inr (fallback_unparsed (ascii ''hello'')) \<and>
   dict_get (fallback_unparsed (ascii ''hello'')) k_response_text PNone =
     PStr (ascii ''hello'') \<and>
   ascii ''hello'' \<noteq> msg_understood"
  by (simp add: unparsable_def analyze_task_def analyze_task_body_def try_except_def Let_def
        fallback_unparsed_def dict_get_def msg_understood_def island_defs
        pipeline_example_defs ascii_def)

section \<open>The descending stable sort\<close>

lemma str_less_lexord: "str_less a b \<longleftrightarrow> (a, b) \<in> lexord {(x, y). x < y}"
  by (induction a b rule: str_less.induct) auto

lemma ints_less_lexord: "ints_less a b \<longleftrightarrow> (a, b) \<in> lexord {(x, y). x < y}"
  by (induction a b rule: ints_less.induct) auto

lemma lexord_less_trans:
  fixes a b c :: "('a :: linorder) list"
  assumes "(a, b) \<in> lexord {(x, y). x < y}" and "(b, c) \<in> lexord {(x, y). x < y}"
  shows "(a, c) \<in> lexord {(x, y). x < y}"
proof -
  have "trans {(x :: 'a, y). x < y}"
    by (auto simp: trans_def)
  then show ?thesis
    using assms lexord_trans by blast
qed

lemma lexord_less_irrefl:
  fixes a :: "('a :: linorder) list"
  shows "(a, a) \<notin> lexord {(x, y). x < y}"
  by (rule lexord_irreflexive) simp

lemma lexord_less_total:
  fixes a b :: "('a :: linorder) list"
  shows "(a, b) \<in> lexord {(x, y). x < y} \<or> a = b \<or> (b, a) \<in> lexord {(x, y). x < y}"
  by (rule lexord_linear) auto

lemma key_less_trans: "key_less a b \<Longrightarrow> key_less b c \<Longrightarrow> key_less a c"
  unfolding key_less_def str_less_lexord ints_less_lexord
  by (metis lexord_less_trans)

lemma key_less_irrefl: "\<not> key_less a a"
  unfolding key_less_def str_less_lexord ints_less_lexord
  by (simp add: lexord_less_irrefl)

lemma key_less_total: "key_less a b \<or> a = b \<or> key_less b a"
  unfolding key_less_def str_less_lexord ints_less_lexord
  by (metis lexord_less_total prod.collapse)

lemma not_key_less_trans:
  assumes "\<not> key_less a b" and "\<not> key_less b c"
  shows "\<not> key_less a c"
  using assms key_less_total [of a b] key_less_total [of b c] key_less_trans key_less_irrefl
  by blast

definition descending :: "((int list \<times> pystr) \<times> 'a) list \<Rightarrow> bool" where
  "descending xs = sorted_wrt (\<lambda>x y. \<not> key_less (fst x) (fst y)) xs"

lemma set_insert_desc: "set (insert_desc x xs) = insert x (set xs)"
  by (induction xs) auto

lemma length_insert_desc: "length (insert_desc x xs) = Suc (length xs)"
  by (induction xs) auto

lemma descending_insert_desc: "descending xs \<Longrightarrow> descending (insert_desc x xs)"
proof (induction xs)
  case Nil
  show ?case by (simp add: descending_def)
next
  case (Cons y ys)
  show ?case
  proof (cases "key_less (fst x) (fst y)")
    case True
    from Cons.prems have tail: "descending ys"
      and head: "\<forall>z \<in> set ys. \<not> key_less (fst y) (fst z)"
      by (auto simp: descending_def)
    have asym: "\<not> key_less (fst y) (fst x)"
      using True key_less_trans [of "fst x" "fst y" "fst x"] key_less_irrefl [of "fst x"]
      by blast
    from Cons.IH tail have "descending (insert_desc x ys)"
      by simp
    with True head asym show ?thesis
      by (simp add: descending_def set_insert_desc)
  next
    case False
    from Cons.prems have head: "\<forall>z \<in> set ys. \<not> key_less (fst y) (fst z)"
      by (auto simp: descending_def)
    have "\<forall>z \<in> set ys. \<not> key_less (fst x) (fst z)"
      using False head not_key_less_trans by blast
    with False Cons.prems show ?thesis
      by (simp add: descending_def)
  qed
qed

lemma descending_sort_desc: "descending (sort_desc xs)"
  unfolding sort_desc_def
  by (induction xs) (simp_all add: descending_def [of "[]"] descending_insert_desc)

lemma set_sort_desc: "set (sort_desc xs) = set xs"
  unfolding sort_desc_def by (induction xs) (simp_all add: set_insert_desc)

lemma length_sort_desc: "length (sort_desc xs) = length xs"
  unfolding sort_desc_def by (induction xs) (simp_all add: length_insert_desc)

text \<open>
  Stability: records with the same key come out in the order they went in.
\<close>

lemma filter_insert_desc:
  "descending xs \<Longrightarrow>
     filter (\<lambda>y. fst y = k) (insert_desc x xs) =
       (if fst x = k then x # filter (\<lambda>y. fst y = k) xs else filter (\<lambda>y. fst y = k) xs)"
proof (induction xs)
  case Nil
  show ?case by simp
next
  case (Cons y ys)
  from Cons.prems have tail: "descending ys" and head: "\<forall>z \<in> set ys. \<not> key_less (fst y) (fst z)"
    by (auto simp: descending_def)
  show ?case
  proof (cases "key_less (fst x) (fst y)")
    case False
    then show ?thesis by simp
  next
    case True
    then have ne: "fst x \<noteq> fst y"
      using key_less_irrefl [of "fst y"] by auto
    have "fst y = k \<Longrightarrow> fst x \<noteq> k"
      using ne by auto
    with True Cons.IH [OF tail] show ?thesis
      by auto
  qed
qed

lemma sort_desc_stable:
  "filter (\<lambda>y. fst y = k) (sort_desc xs) = filter (\<lambda>y. fst y = k) xs"
  unfolding sort_desc_def
proof (induction xs)
  case Nil
  show ?case by simp
next
  case (Cons x xs)
  have "descending (foldr insert_desc xs [])"
    using descending_sort_desc [of xs] by (simp add: sort_desc_def)
  then show ?case
    using Cons by (simp add: filter_insert_desc)
qed

section \<open>Reply synthesis for queries\<close>

lemmas literal_defs =
  k_id_def k_title_def k_status_def k_due_date_def k_priority_def k_category_def
  k_description_def k_url_def k_created_def k_edited_def k_name_def k_date_def
  st_in_progress_def st_pending_def st_done_def st_cancelled_def st_unknown_def
  pr_high_def pr_medium_def pr_low_def name_todo_def default_due_def

lemma collect_length: "collect f xs = Inr ys \<Longrightarrow> length ys = length xs"
  by (induction xs arbitrary: ys) (auto split: sum.splits)

text \<open>
  When more than ten records are given and every sort key ends in a string, the records
  displayed are the first ten of the records in descending order of their keys.
\<close>

lemma displayed_results_sorted:
  assumes more: "10 < length query_results"
    and keys: "collect (if query_type = name_todo then todo_sort_key else other_sort_key)
                 query_results = Inr keys"
    and strs: "\<forall>k \<in> set keys. is_str (snd k)"
  shows "\<exists>ordered.
           displayed_results B query_results query_type = Inr (map snd (take 10 ordered)) \<and>
           length (take 10 ordered) = 10 \<and> descending ordered \<and>
           set ordered = set (zip (map (\<lambda>k. (fst k, str_val (snd k))) keys) query_results)"
proof -
  let ?keyed = "zip (map (\<lambda>k. (fst k, str_val (snd k))) keys) query_results"
  have len: "length keys = length query_results"
    using keys by (rule collect_length)
  have all: "list_all (\<lambda>(k, x). is_str (snd k)) (zip keys query_results)"
    using strs by (auto simp: list_all_iff dest: set_zip_leftD)
  have "map (\<lambda>(k, x). ((fst k, str_val (snd k)), x)) (zip keys query_results) = ?keyed"
    by (simp add: zip_map1)
  with all have sorted: "py_sorted_reverse B (zip keys query_results) =
      Inr (map snd (sort_desc ?keyed))"
    by (simp add: py_sorted_reverse_def)
  have "displayed_results B query_results query_type =
      Inr (map snd (take 10 (sort_desc ?keyed)))"
    using more keys sorted by (simp add: displayed_results_def take_map)
  moreover have "length (take 10 (sort_desc ?keyed)) = 10"
    using more len by (simp add: length_sort_desc)
  ultimately show ?thesis
    using descending_sort_desc [of ?keyed] set_sort_desc [of ?keyed] by blast
qed

lemma eleven_keys:
  "collect todo_sort_key eleven_items =
     Inr (map (\<lambda>n. ([0, 2], PStr (ascii ''2024-05-'' @ two_digits n)))
            [1, 2, 3, 4, 5, 6, 7, 8, 9, 10, 11])"
  by (simp add: eleven_items_def open_item_def todo_sort_key_def status_order_def
        priority_order_def dict_get_def two_digits_def literal_defs ascii_def)

lemma eleven_displayed:
  "displayed_results example_builtins eleven_items name_todo =
     Inr (map open_item [11, 10, 9, 8, 7, 6, 5, 4, 3, 2])"
proof -
  have "py_sorted_reverse example_builtins
          (zip (map (\<lambda>n. ([0, 2], PStr (ascii ''2024-05-'' @ two_digits n)))
                  [1, 2, 3, 4, 5, 6, 7, 8, 9, 10, 11]) eleven_items) =
        Inr (map open_item [11, 10, 9, 8, 7, 6, 5, 4, 3, 2, 1])"
    by (simp add: py_sorted_reverse_def sort_desc_def key_less_def eleven_items_def
          two_digits_def ascii_def)
  moreover have "length eleven_items = 11"
    by (simp add: eleven_items_def)
  ultimately show ?thesis
    by (simp add: displayed_results_def eleven_keys)
qed

text \<open>
  C7. Eleven to-do records with an unset status and the oracle call failing. The ten
  records with the latest due dates are selected, in descending order of due date; the
  fallback formatter then lists none of them, prints no group, and still reports ten
  records shown and one more not shown.
\<close>

theorem fallback_drops_unknown_status:
  "displayed_results example_builtins eleven_items name_todo =
     Inr (map open_item [11, 10, 9, 8, 7, 6, 5, 4, 3, 2]) \<and>
   generate_query_response example_builtins oracle_down eleven_items name_todo =
     Inr (py_join [0xA]
       [hello_pre @ name_todo @ hello_post,
        total_label @ ascii ''11'',
        shown_label @ ascii ''10'',
        more_pre @ ascii ''1'' @ more_post])"
proof -
  have "format_query_results_fallback example_builtins
          (map open_item [11, 10, 9, 8, 7, 6, 5, 4, 3, 2]) name_todo 11 =
        Inr (py_join [0xA]
          [hello_pre @ name_todo @ hello_post,
           total_label @ ascii ''11'',
           shown_label @ ascii ''10'',
           more_pre @ ascii ''1'' @ more_post])"
    by (simp add: format_query_results_fallback_def format_group_def hashable_status_def
          status_of_def open_item_def dict_get_def str_of_nat.simps literal_defs ascii_def)
  moreover have "eleven_items \<noteq> []" and "length eleven_items = 11"
    by (simp_all add: eleven_items_def)
  ultimately show ?thesis
    by (simp add: generate_query_response_def eleven_displayed oracle_down_def)
qed

section \<open>The daily report\<close>

lemma accounting_query_ignores_date:
  "accounting_query store [(k_date, PStr d)] =
     query_result (store db_accounting PNone
        (PList [PDict [(ascii ''property'', PStr k_date),
                       (ascii ''direction'', PStr (ascii ''descending''))]]) (PInt 20))
       msg_found_accounting"
  by (simp add: accounting_query_def combine_filters_def dict_get_def has_key_def k_date_def
        ascii_def)

lemma todo_query_unfiltered:
  "todo_query store clk [] =
     query_result (store db_todos PNone
        (PList [PDict [(ascii ''property'', PStr k_due_date),
                       (ascii ''direction'', PStr (ascii ''ascending''))]]) (PInt 20))
       msg_found_todos"
  by (simp add: todo_query_def combine_filters_def)

lemma daily_report_empty_store:
  assumes "\<forall>sorts limit. store db_accounting PNone sorts limit = []"
    and "\<forall>sorts limit. store db_todos PNone sorts limit = []"
    and "weekday clk < 7"
  shows "send_manual_daily_report B store clk oracle_out =
     Inr (py_join [0xA]
       [report_morning @ generate_morning_greeting oracle_out,
        report_today_is @ today clk @ ascii '' '' @ weekday_names ! weekday clk,
        [], report_finance_title, fin_no_records, [], report_todo_title, todo_none_dated, [],
        report_closing])"
proof -
  from assms(1) have fin: "get_yesterday_financial_summary B store (yesterday clk) =
      fin_no_records"
    by (simp add: get_yesterday_financial_summary_def financial_summary_body_def
          accounting_query_ignores_date query_result_def TaskResult_def dict_get_def ascii_def)
  from assms(2) have todo: "get_today_todos B store clk (today clk) = todo_none_dated"
    by (simp add: get_today_todos_def today_todos_body_def todo_query_unfiltered
          query_result_def TaskResult_def dict_get_def ascii_def)
  from assms(3) have wd: "weekday_name (weekday clk) = Inr (weekday_names ! weekday clk)"
    by (simp add: weekday_name_def weekday_names_def)
  show ?thesis
    by (simp add: send_manual_daily_report_def generate_daily_report_def daily_report_body_def
          try_except_def fin todo wd)
qed

text \<open>
  C8. A user with no to-do record and one accounting record that is not of yesterday:
  the query for yesterday's records passes no filter to the store, the record is
  returned, and the financial section of the report is the summary of that record, not
  the no-records phrase.
\<close>

theorem daily_report_sums_other_days:
  "accounting_query ledger_store [(k_date, PStr (yesterday may_2))] =
     query_result [old_expense] msg_found_accounting \<and>
   send_manual_daily_report example_builtins ledger_store may_2 oracle_down =
     Inr (py_join [0xA]
       [report_morning @ greeting_fallback,
        report_today_is @ ascii ''2024-05-02 '' @ [0x5468, 0x56DB],
        [], report_finance_title,
        fin_expense @ ascii ''10.00'' @ fin_yuan @ ascii '' | '' @
          fin_net_expense @ ascii ''10.00'' @ fin_yuan @ ascii '' | '' @
          fin_count_pre @ ascii ''1'' @ fin_count_post,
        [], report_todo_title, todo_none_dated, [], report_closing])"
proof -
  have q: "accounting_query ledger_store [(k_date, PStr (yesterday may_2))] =
      query_result [old_expense] msg_found_accounting"
    by (simp add: accounting_query_ignores_date ledger_store_def)
  have r10: "round_b64 10 0 = Fin 10 0"
    by (simp add: round_b64_def bit_length.simps)
  have rm10: "round_b64 (- 10) 0 = Fin (- 10) 0"
    by (simp add: round_b64_def bit_length.simps)
  have sum: "sum_records example_builtins [PDict old_expense] (Fin 0 0) (Fin 0 0) =
      Inr (Fin 0 0, Fin 10 0)"
    by (simp add: old_expense_def dict_get_def r10 k_id_def k_title_def k_amount_def k_type_def
          k_date_def v_income_def v_expense_def ascii_def)
  have fmt: "format_2f (Fin 10 0) = ascii ''10.00''"
    by (simp add: two_digits_def str_of_nat.simps ascii_def)
  have fin: "get_yesterday_financial_summary example_builtins ledger_store (yesterday may_2) =
      fin_expense @ ascii ''10.00'' @ fin_yuan @ ascii '' | '' @
      fin_net_expense @ ascii ''10.00'' @ fin_yuan @ ascii '' | '' @
      fin_count_pre @ ascii ''1'' @ fin_count_post"
    by (simp add: get_yesterday_financial_summary_def financial_summary_body_def q
          query_result_def TaskResult_def dict_get_def sum positive_def float_sub_def rm10
          dy_less_def fmt str_of_nat.simps del: sum_records.simps)
       (simp add: two_digits_def ascii_def)
  have todo: "get_today_todos example_builtins ledger_store may_2 (today may_2) =
      todo_none_dated"
    by (simp add: get_today_todos_def today_todos_body_def todo_query_unfiltered
          query_result_def TaskResult_def dict_get_def ledger_store_def db_todos_def
          db_accounting_def ascii_def)
  have wd: "weekday_name (weekday may_2) = Inr [0x5468, 0x56DB]"
    by (simp add: weekday_name_def weekday_names_def may_2_def)
  have "send_manual_daily_report example_builtins ledger_store may_2 oracle_down =
     Inr (py_join [0xA]
       [report_morning @ greeting_fallback,
        report_today_is @ today may_2 @ ascii '' '' @ [0x5468, 0x56DB],
        [], report_finance_title,
        fin_expense @ ascii ''10.00'' @ fin_yuan @ ascii '' | '' @
          fin_net_expense @ ascii ''10.00'' @ fin_yuan @ ascii '' | '' @
          fin_count_pre @ ascii ''1'' @ fin_count_post,
        [], report_todo_title, todo_none_dated, [], report_closing])"
    by (simp add: send_manual_daily_report_def generate_daily_report_def daily_report_body_def
          try_except_def fin todo wd generate_morning_greeting_def oracle_down_def)
  moreover have "today may_2 = ascii ''2024-05-02''"
    by (simp add: may_2_def)
  moreover have "ascii ''2024-05-02'' @ ascii '' '' = ascii ''2024-05-02 ''"
    by (simp add: ascii_def)
  ultimately show ?thesis
    using q by simp
qed

end
